theory Spec2Isabelle
  imports Complex_Main "HOL-Library.AList"
begin

section \<open>Go values shared by the relay and the agent\<close>

text \<open>
  A Go map is an association list with distinct keys: \<open>map_of\<close> reads it,
  \<open>AList.update\<close> is the assignment \<open>m[k] = v\<close>, \<open>AList.delete\<close> is
  \<open>delete(m, k)\<close> and \<open>length\<close> is \<open>len(m)\<close>. The order of the list is the order in
  which one \<open>range\<close> loop happens to visit the entries; no theorem below fixes it.
  Go strings are byte sequences, as \<open>string\<close> is. The Chinese literals of the source
  (log lines, error texts) are written in English.
\<close>

text \<open>A decoded JSON value, the dynamic type behind \<open>map[string]interface{}\<close>.
  A number is decoded as a \<open>float64\<close>; \<open>JNum\<close> carries its value, a rational.\<close>

datatype json =
    JNil
  | JBool bool
  | JNum rat
  | JStr string
  | JArr "json list"
  | JObj "(string \<times> json) list"

text \<open>\<open>m[k]\<close> on a \<open>map[string]interface{}\<close>: the nil interface when the key is
  absent (also when the map itself is nil, modelled as the empty list).\<close>

definition index :: "(string \<times> json) list \<Rightarrow> string \<Rightarrow> json" where
  "index m k = (case map_of m k of None \<Rightarrow> JNil | Some v \<Rightarrow> v)"

text \<open>The comma-ok type assertions \<open>v.(string)\<close>, \<open>v.(map[string]interface{})\<close> and
  \<open>v.(float64)\<close>: \<open>None\<close> is \<open>ok = false\<close>.\<close>

fun assert_string :: "json \<Rightarrow> string option" where
  "assert_string (JStr s) = Some s"
| "assert_string _ = None"

fun assert_map :: "json \<Rightarrow> (string \<times> json) list option" where
  "assert_map (JObj m) = Some m"
| "assert_map _ = None"

fun assert_float64 :: "json \<Rightarrow> rat option" where
  "assert_float64 (JNum n) = Some n"
| "assert_float64 _ = None"

text \<open>\<open>x, _ := v.(string)\<close> and \<open>x, _ := v.(map[string]interface{})\<close>: the zero
  value when the assertion fails.\<close>

definition string_or_zero :: "json \<Rightarrow> string" where
  "string_or_zero v = (case assert_string v of None \<Rightarrow> [] | Some s \<Rightarrow> s)"

definition map_or_nil :: "json \<Rightarrow> (string \<times> json) list" where
  "map_or_nil v = (case assert_map v of None \<Rightarrow> [] | Some m \<Rightarrow> m)"

text \<open>\<open>http.Header\<close> is \<open>map[string][]string\<close>; \<open>Header.Get\<close> returns the first
  value of the key, or the empty string. (It looks the name up in canonical form; the
  names the two programs pass to it are canonical as written.)\<close>

type_synonym header = "(string \<times> string list) list"

definition Header_Get :: "header \<Rightarrow> string \<Rightarrow> string" where
  "Header_Get h k = (case map_of h k of None \<Rightarrow> [] | Some [] \<Rightarrow> [] | Some (v # _) \<Rightarrow> v)"

text \<open>The loop \<open>for k, v := range h { if len(v) > 0 { headers[k] = v[0] } }\<close>, which
  both programs use to turn a header into a \<open>map[string]string\<close>.\<close>

fun first_values :: "header \<Rightarrow> (string \<times> string) list \<Rightarrow> (string \<times> string) list" where
  "first_values [] headers = headers"
| "first_values ((k, v) # rest) headers =
     first_values rest (if length v > 0 then AList.update k (hd v) headers else headers)"

text \<open>Go's \<open>int\<close> and \<open>int64\<close> are 64 bits wide; \<open>wrap64\<close> is the value an
  arithmetic result has after wrap-around.\<close>

definition wrap64 :: "int \<Rightarrow> int" where
  "wrap64 x = (x + 2 ^ 63) mod 2 ^ 64 - 2 ^ 63"

text \<open>
  The conversion \<open>int(f)\<close> of a \<open>float64\<close>: the fraction is dropped (towards
  zero). For a value outside the range of \<open>int\<close> the language leaves the result to
  the implementation; the value given here is the one of the amd64 compiler.
\<close>

definition go_int :: "rat \<Rightarrow> int" where
  "go_int f =
     (let t = (if 0 \<le> f then \<lfloor>f\<rfloor> else \<lceil>f\<rceil>)
      in if - (2 ^ 63) \<le> t \<and> t < 2 ^ 63 then t else - (2 ^ 63))"

text \<open>\<open>fmt.Sprintf("%d", n)\<close>.\<close>

definition digit_char :: "nat \<Rightarrow> char" where
  "digit_char d = ''0123456789'' ! d"

fun digits :: "nat \<Rightarrow> string" where
  "digits n = (if n < 10 then [digit_char n] else digits (n div 10) @ [digit_char (n mod 10)])"

declare digits.simps [simp del]

definition Sprintf_d :: "int \<Rightarrow> string" where
  "Sprintf_d n = (if n < 0 then CHR ''-'' # digits (nat (- n)) else digits (nat n))"

text \<open>
  \<open>strconv.Atoi\<close> of the Go standard library (base 10, 64-bit \<open>int\<close>), as its
  documentation and source give it: an optional sign, then decimal digits only; a
  syntax error returns 0; a value out of range returns the nearest representable
  integer together with a range error. The second component is \<open>err == nil\<close>.
\<close>

definition is_digit :: "char \<Rightarrow> bool" where
  "is_digit c = (48 \<le> (of_char c :: nat) \<and> (of_char c :: nat) \<le> 57)"

fun digits_value :: "string \<Rightarrow> int \<Rightarrow> int option" where
  "digits_value [] n = Some n"
| "digits_value (c # cs) n =
     (if is_digit c then digits_value cs (n * 10 + (int (of_char c) - 48)) else None)"

definition Atoi :: "string \<Rightarrow> int \<times> bool" where
  "Atoi s =
     (if s = [] then (0, False)
      else
        let neg = (hd s = CHR ''-'');
            ds = (if hd s = CHR ''+'' \<or> hd s = CHR ''-'' then tl s else s)
        in if ds = [] then (0, False)
           else (case digits_value ds 0 of
                   None \<Rightarrow> (0, False)
                 | Some un \<Rightarrow>
                     if \<not> neg \<and> un \<ge> 2 ^ 63 then (2 ^ 63 - 1, False)
                     else if neg \<and> un > 2 ^ 63 then (- (2 ^ 63), False)
                     else (if neg then - un else un, True)))"

subsection \<open>What \<open>WriteJSON\<close> and \<open>ReadJSON\<close> do to a message\<close>

text \<open>
  \<open>encoding/json\<close> writes a Go string as JSON text: it walks the string with
  \<open>utf8.DecodeRuneInString\<close>, copies every well-formed UTF-8 sequence and writes
  U+FFFD in place of every byte that starts none. \<open>rune_len\<close> is the length of the
  well-formed sequence at the head of a string, 0 when there is none; \<open>sanitize n\<close>
  copies \<open>n\<close> bytes of the current sequence and then goes on.
\<close>

definition byte :: "char \<Rightarrow> nat" where
  "byte c = of_char c"

definition in_range :: "nat \<Rightarrow> char \<Rightarrow> nat \<Rightarrow> bool" where
  "in_range lo c hi = (lo \<le> byte c \<and> byte c \<le> hi)"

fun rune_len :: "string \<Rightarrow> nat" where
  "rune_len [] = 0"
| "rune_len (c # cs) =
     (if byte c < 128 then 1
      else if in_range 194 c 223 then
        (case cs of
           c1 # _ \<Rightarrow> if in_range 128 c1 191 then 2 else 0
         | _ \<Rightarrow> 0)
      else if in_range 224 c 239 then
        (case cs of
           c1 # c2 # _ \<Rightarrow>
             if in_range (if byte c = 224 then 160 else 128) c1 (if byte c = 237 then 159 else 191)
                \<and> in_range 128 c2 191
             then 3 else 0
         | _ \<Rightarrow> 0)
      else if in_range 240 c 244 then
        (case cs of
           c1 # c2 # c3 # _ \<Rightarrow>
             if in_range (if byte c = 240 then 144 else 128) c1 (if byte c = 244 then 143 else 191)
                \<and> in_range 128 c2 191 \<and> in_range 128 c3 191
             then 4 else 0
         | _ \<Rightarrow> 0)
      else 0)"

definition replacement :: string where
  "replacement = [CHR 0xEF, CHR 0xBF, CHR 0xBD]"

fun sanitize :: "nat \<Rightarrow> string \<Rightarrow> string" where
  "sanitize n [] = []"
| "sanitize (Suc n) (c # cs) = c # sanitize n cs"
| "sanitize 0 (c # cs) =
     (case rune_len (c # cs) of
        0 \<Rightarrow> replacement @ sanitize 0 cs
      | Suc k \<Rightarrow> c # sanitize k cs)"

definition to_valid_utf8 :: "string \<Rightarrow> string" where
  "to_valid_utf8 s = sanitize 0 s"

text \<open>
  A message written with \<open>WriteJSON\<close> and read with \<open>ReadJSON\<close> into a
  \<open>map[string]interface{}\<close> arrives as \<open>wire\<close> of it: every string and every key
  goes through \<open>to_valid_utf8\<close>. A number arrives as it is when it is an integer
  below \<open>2^53\<close> in size, which a \<open>float64\<close> holds exactly; the numbers the two
  programs write are status codes and Unix times. The keys of the objects the two
  programs write are field names and header names, all ASCII, so no two keys fall
  together on the way.
\<close>

fun wire :: "json \<Rightarrow> json"
  and wire_fields :: "(string \<times> json) list \<Rightarrow> (string \<times> json) list"
  and wire_list :: "json list \<Rightarrow> json list" where
  "wire JNil = JNil"
| "wire (JBool b) = JBool b"
| "wire (JNum x) = JNum x"
| "wire (JStr s) = JStr (to_valid_utf8 s)"
| "wire (JArr xs) = JArr (wire_list xs)"
| "wire (JObj m) = JObj (wire_fields m)"
| "wire_fields [] = []"
| "wire_fields ((k, v) # rest) = (to_valid_utf8 k, wire v) # wire_fields rest"
| "wire_list [] = []"
| "wire_list (x # xs) = wire x # wire_list xs"

subsection \<open>Header names\<close>

text \<open>
  \<open>textproto.CanonicalMIMEHeaderKey\<close>, which \<open>Header.Set\<close> applies to the name:
  a name made of token bytes only gets an upper-case first letter and an upper-case
  letter after every dash, and lower-case letters elsewhere; any other name is left as
  it is.
\<close>

definition valid_field_byte :: "char \<Rightarrow> bool" where
  "valid_field_byte c =
     (in_range 48 c 57 \<or> in_range 65 c 90 \<or> in_range 97 c 122
      \<or> c \<in> set ''!#$%&*+-.^_`|~'' \<or> byte c = 39)"

definition to_upper :: "char \<Rightarrow> char" where
  "to_upper c =
     (case map_of (zip ''abcdefghijklmnopqrstuvwxyz'' ''ABCDEFGHIJKLMNOPQRSTUVWXYZ'') c of
        None \<Rightarrow> c | Some u \<Rightarrow> u)"

definition to_lower :: "char \<Rightarrow> char" where
  "to_lower c =
     (case map_of (zip ''ABCDEFGHIJKLMNOPQRSTUVWXYZ'' ''abcdefghijklmnopqrstuvwxyz'') c of
        None \<Rightarrow> c | Some l \<Rightarrow> l)"

fun canon :: "bool \<Rightarrow> string \<Rightarrow> string" where
  "canon upper [] = []"
| "canon upper (c # cs) =
     (if upper then to_upper c else to_lower c)
       # canon ((if upper then to_upper c else to_lower c) = CHR ''-'') cs"

definition CanonicalMIMEHeaderKey :: "string \<Rightarrow> string" where
  "CanonicalMIMEHeaderKey k = (if list_all valid_field_byte k then canon True k else k)"


section \<open>The relay: \<open>cmd/server/go_my_cloudflared_server.go\<close>\<close>

record Config =
  HTTPPort :: int
  WSPort :: int
  Host :: string
  PublicDomain :: string
  RequestTimeout :: int
  MaxClients :: int
  RequireAuth :: bool
  Tokens :: "string list"

definition DefaultConfig :: Config where
  "DefaultConfig =
     \<lparr>HTTPPort = 6000, WSPort = 6001, Host = ''0.0.0.0'', PublicDomain = [],
      RequestTimeout = 30000, MaxClients = 100, RequireAuth = True,
      Tokens = [''default-token'']\<rparr>"

text \<open>A connection is named by a number; \<open>LastPing\<close> is a Unix time.\<close>

record Client =
  ID :: string
  Conn :: nat
  ClientHost :: string
  ClientPort :: int
  LastPing :: int

record HTTPResponse =
  StatusCode :: int
  Headers :: "(string \<times> string) list"
  Body :: string
  Error :: string

text \<open>
  The server state. A channel made by \<open>make(chan HTTPResponse, 1)\<close> is an address
  into the store \<open>chans\<close>, which holds its buffer; \<open>nextChan\<close> is the next free
  address. \<open>pendingRequests\<close> maps a request identifier to a channel address.
\<close>

record TunnelServer =
  config :: Config
  clients :: "(string \<times> Client) list"
  pendingRequests :: "(string \<times> nat) list"
  chans :: "nat \<Rightarrow> HTTPResponse list"
  nextChan :: nat

definition NewTunnelServer :: "Config \<Rightarrow> TunnelServer" where
  "NewTunnelServer cfg =
     \<lparr>config = cfg, clients = [], pendingRequests = [], chans = (\<lambda>_. []), nextChan = 0\<rparr>"

subsection \<open>\<open>validateToken\<close>\<close>

fun token_loop :: "string \<Rightarrow> string list \<Rightarrow> bool" where
  "token_loop token [] = False"
| "token_loop token (validToken # rest) =
     (if token = validToken then True else token_loop token rest)"

text \<open>The token the header presents: the header without a leading \<open>"Bearer "\<close>.\<close>

definition bearer_token :: "string \<Rightarrow> string" where
  "bearer_token authHeader =
     (if length authHeader > 7 \<and> take 7 authHeader = ''Bearer '' then drop 7 authHeader
      else authHeader)"

definition validateToken :: "Config \<Rightarrow> string \<Rightarrow> bool" where
  "validateToken cfg authHeader =
     (if authHeader = [] then False
      else token_loop (bearer_token authHeader) (Tokens cfg))"

subsection \<open>\<open>handleWebSocket\<close>\<close>

text \<open>What a handler does to the outside, in order.\<close>

datatype srv_action =
    HttpError string int
  | Upgrade
  | WriteJSON nat json
  | CloseConn nat

definition welcomeMsg :: "Config \<Rightarrow> string \<Rightarrow> string \<Rightarrow> int \<Rightarrow> json" where
  "welcomeMsg cfg clientID host port =
     JObj [(''type'', JStr ''connected''),
           (''data'', JObj
              [(''clientId'', JStr clientID),
               (''publicUrl'', JStr (''http://'' @ PublicDomain cfg @ '':'' @ Sprintf_d (HTTPPort cfg))),
               (''localTarget'', JStr (host @ '':'' @ Sprintf_d port))])]"

text \<open>
  \<open>handleWebSocket\<close> up to its read loop. The inputs are the handshake's header, the
  reading of \<open>time.Now().Unix()\<close>, and what \<open>Upgrade\<close> returns (\<open>None\<close> is an error,
  \<open>Some conn\<close> the new connection). The result is the new state, the client registered
  (if any) and the actions in order.
\<close>

definition handleWebSocket :: "TunnelServer \<Rightarrow> header \<Rightarrow> int \<Rightarrow> nat option
    \<Rightarrow> TunnelServer \<times> Client option \<times> srv_action list" where
  "handleWebSocket s h now upgraded =
     (if RequireAuth (config s) \<and> \<not> validateToken (config s) (Header_Get h ''Authorization'')
      then (s, None, [HttpError ''authentication failed'' 401])
      else
        (case upgraded of
           None \<Rightarrow> (s, None, [Upgrade])
         | Some conn \<Rightarrow>
             let clientID = ''client_'' @ Sprintf_d now;
                 host0 = Header_Get h ''X-Tunnel-Host'';
                 host = (if host0 = [] then ''localhost'' else host0);
                 port0 = fst (Atoi (Header_Get h ''X-Tunnel-Port''));
                 port = (if port0 = 0 then 3000 else port0);
                 client = \<lparr>ID = clientID, Conn = conn, ClientHost = host, ClientPort = port,
                           LastPing = now\<rparr>
             in (s\<lparr>clients := AList.update clientID client (clients s)\<rparr>,
                 Some client,
                 [Upgrade, WriteJSON conn (welcomeMsg (config s) clientID host port)])))"

text \<open>The deferred function of \<open>handleWebSocket\<close>, run when the read loop ends.\<close>

definition handleWebSocket_exit :: "TunnelServer \<Rightarrow> Client \<Rightarrow> TunnelServer \<times> srv_action list" where
  "handleWebSocket_exit s client =
     (s\<lparr>clients := AList.delete (ID client) (clients s)\<rparr>, [CloseConn (Conn client)])"

subsection \<open>\<open>handleHTTPResponse\<close>\<close>

text \<open>The loop \<open>for k, v := range headers { if str, ok := v.(string); ok {
  response.Headers[k] = str } }\<close>.\<close>

fun string_entries :: "(string \<times> json) list \<Rightarrow> (string \<times> string) list \<Rightarrow> (string \<times> string) list" where
  "string_entries [] headers = headers"
| "string_entries ((k, v) # rest) headers =
     string_entries rest
       (case assert_string v of None \<Rightarrow> headers | Some str \<Rightarrow> AList.update k str headers)"

text \<open>The response object built from the message's \<open>data\<close>: every field keeps its
  zero value unless the assertion on it succeeds.\<close>

definition decode_response :: "(string \<times> json) list \<Rightarrow> HTTPResponse" where
  "decode_response data =
     \<lparr>StatusCode = (case assert_float64 (index data ''statusCode'') of
                     None \<Rightarrow> 0
                   | Some statusCode \<Rightarrow> go_int statusCode),
      Headers = (case assert_map (index data ''headers'') of
                   None \<Rightarrow> []
                 | Some headers \<Rightarrow> string_entries headers []),
      Body = (case assert_string (index data ''body'') of None \<Rightarrow> [] | Some body \<Rightarrow> body),
      Error = (case assert_string (index data ''error'') of None \<Rightarrow> [] | Some e \<Rightarrow> e)\<rparr>"

datatype logline =
    LogMissingID
  | LogBadData
  | LogNoPending string
  | LogHandled string int
  | LogChanClosed string

text \<open>
  A send in \<open>select { case ch <- v: ... default: ... }\<close> on a channel of capacity 1
  goes through exactly when the buffer is empty; otherwise the default branch runs.
  The result is the new state and the line logged. Nothing is returned to a caller:
  the Go function has no result.
\<close>

definition handleHTTPResponse :: "TunnelServer \<Rightarrow> (string \<times> json) list \<Rightarrow> TunnelServer \<times> logline" where
  "handleHTTPResponse s msg =
     (case assert_string (index msg ''id'') of
        None \<Rightarrow> (s, LogMissingID)
      | Some requestID \<Rightarrow>
          (case assert_map (index msg ''data'') of
             None \<Rightarrow> (s, LogBadData)
           | Some data \<Rightarrow>
               let response = decode_response data
               in (case map_of (pendingRequests s) requestID of
                     None \<Rightarrow> (s, LogNoPending requestID)
                   | Some responseChan \<Rightarrow>
                       let s1 = s\<lparr>pendingRequests := AList.delete requestID (pendingRequests s)\<rparr>
                       in if length (chans s1 responseChan) < 1
                          then (s1\<lparr>chans := (chans s1)(responseChan := chans s1 responseChan @ [response])\<rparr>,
                                LogHandled requestID (StatusCode response))
                          else (s1, LogChanClosed requestID))))"

subsection \<open>\<open>handleHTTPRequest\<close> of the relay\<close>



text \<open>The public request as the handler reads it: \<open>Path\<close> is \<open>r.URL.Path\<close>, the
  path after percent-decoding, and \<open>RawQuery\<close> is \<open>r.URL.RawQuery\<close>, the query as
  sent. \<open>ReqBody\<close> is what \<open>io.ReadAll(r.Body)\<close> returns: \<open>None\<close> is an error.\<close>

record Request =
  Method :: string
  Path :: string
  RawQuery :: string
  ReqHeader :: header
  ReqBody :: "string option"

text \<open>What the handler hands to its \<open>ResponseWriter\<close>: the code given to
  \<open>WriteHeader\<close>, the header entries set before, and the bytes given to \<open>Write\<close>.
  What \<open>net/http\<close> then puts on the caller's connection is outside this model: for
  a code from 200 to 999 the status line carries that code; for a code from 100 to 199
  it sends an interim response and the final status is 200; it sends no body with 204
  or 304 or in answer to \<open>HEAD\<close>.\<close>

record reply =
  status :: int
  rheaders :: "(string \<times> string) list"
  rbody :: string

text \<open>\<open>http.Error(w, msg, code)\<close>.\<close>

definition http_Error :: "string \<Rightarrow> int \<Rightarrow> reply" where
  "http_Error msg code =
     \<lparr>status = code,
      rheaders = [(''Content-Type'', ''text/plain; charset=utf-8''),
                  (''X-Content-Type-Options'', ''nosniff'')],
      rbody = msg @ [CHR 0x0A]\<rparr>"

definition requestMsg :: "string \<Rightarrow> Request \<Rightarrow> string \<Rightarrow> json" where
  "requestMsg requestID r bodyBytes =
     JObj [(''type'', JStr ''http_request''),
           (''id'', JStr requestID),
           (''data'', JObj
              [(''method'', JStr (Method r)),
               (''url'', JStr (Path r)),
               (''query'', JStr (RawQuery r)),
               (''headers'', JObj (map (\<lambda>(k, v). (k, JStr v)) (first_values (ReqHeader r) []))),
               (''body'', JStr bodyBytes)])]"

text \<open>
  What \<open>Conn.WriteJSON\<close> does in the handler: it returns nil, it returns an error,
  or it panics. The relay takes no lock around its writes to a connection, and the
  websocket library panics when a write begins while another is in progress on the
  same connection.
\<close>

datatype write_result = WriteOk | WriteErr | WritePanic

text \<open>
  The handler up to its \<open>select\<close>. Inputs: the request, the reading of
  \<open>time.Now().UnixNano()\<close>, and what \<open>WriteJSON\<close> to the chosen client does.
  It answers at once, or it has sent the message and waits on its channel, or it ends
  in the panic of the write, after the registration and without any cleanup.
  The client chosen is the first one the \<open>range\<close> loop visits.
\<close>

datatype forward_result =
    Replied reply
  | Waiting string nat
  | Panicked

definition handleHTTPRequest_send :: "TunnelServer \<Rightarrow> Request \<Rightarrow> int \<Rightarrow> write_result
    \<Rightarrow> TunnelServer \<times> forward_result \<times> srv_action list" where
  "handleHTTPRequest_send s r nowNano wr =
     (if length (clients s) = 0
      then (s, Replied (http_Error ''no tunnel client available'' 503), [])
      else
        let selectedClient = snd (hd (clients s));
            requestID = ''req_'' @ Sprintf_d nowNano
        in (case ReqBody r of
              None \<Rightarrow> (s, Replied (http_Error ''reading the request body failed'' 400), [])
            | Some bodyBytes \<Rightarrow>
                let msg = requestMsg requestID r bodyBytes;
                    responseChan = nextChan s;
                    s1 = s\<lparr>chans := (chans s)(responseChan := []),
                           nextChan := Suc (nextChan s),
                           pendingRequests := AList.update requestID responseChan (pendingRequests s)\<rparr>
                in (case wr of
                      WritePanic \<Rightarrow> (s1, Panicked, [WriteJSON (Conn selectedClient) msg])
                    | WriteErr \<Rightarrow>
                        (s1\<lparr>pendingRequests := AList.delete requestID (pendingRequests s1)\<rparr>,
                         Replied (http_Error ''sending the request failed'' 500),
                         [WriteJSON (Conn selectedClient) msg])
                    | WriteOk \<Rightarrow>
                        (s1, Waiting requestID responseChan,
                         [WriteJSON (Conn selectedClient) msg]))))"

text \<open>The loop \<open>for k, v := range response.Headers { w.Header().Set(k, v) }\<close>.\<close>

fun set_headers :: "(string \<times> string) list \<Rightarrow> (string \<times> string) list \<Rightarrow> (string \<times> string) list" where
  "set_headers [] wh = wh"
| "set_headers ((k, v) # rest) wh =
     set_headers rest (AList.update (CanonicalMIMEHeaderKey k) v wh)"

text \<open>How a handler ends once it writes: it has written a reply, or
  \<open>w.WriteHeader\<close> has panicked, which it does for a code below 100 or above 999;
  nothing has been written then.\<close>

datatype handler_end = Wrote reply | HandlerPanic

text \<open>
  The two branches of the handler's \<open>select\<close>. The receive branch can run only when
  the channel holds a value (\<open>None\<close> otherwise: the branch is not ready).
\<close>

definition handleHTTPRequest_received :: "TunnelServer \<Rightarrow> string \<Rightarrow> nat
    \<Rightarrow> (TunnelServer \<times> handler_end) option" where
  "handleHTTPRequest_received s requestID responseChan =
     (case chans s responseChan of
        [] \<Rightarrow> None
      | response # rest \<Rightarrow>
          let s1 = s\<lparr>chans := (chans s)(responseChan := rest),
                     pendingRequests := AList.delete requestID (pendingRequests s)\<rparr>
          in if Error response \<noteq> []
             then Some (s1, Wrote (http_Error (Error response) 502))
             else if StatusCode response < 100 \<or> StatusCode response > 999
             then Some (s1, HandlerPanic)
             else Some (s1, Wrote \<lparr>status = StatusCode response,
                                     rheaders = set_headers (Headers response) [],
                                     rbody = Body response\<rparr>))"

definition handleHTTPRequest_timeout :: "TunnelServer \<Rightarrow> string \<Rightarrow> TunnelServer \<times> reply" where
  "handleHTTPRequest_timeout s requestID =
     (s\<lparr>pendingRequests := AList.delete requestID (pendingRequests s)\<rparr>,
      http_Error ''request timed out'' 504)"

text \<open>
  The duration of the handler's timer,
  \<open>time.Duration(RequestTimeout) * time.Millisecond\<close>, in nanoseconds: a 64-bit
  multiplication.
\<close>

definition request_timer :: "Config \<Rightarrow> int" where
  "request_timer cfg = wrap64 (RequestTimeout cfg * 1000000)"

text \<open>
  The \<open>select\<close> itself, looked at when \<open>elapsed\<close> nanoseconds have passed since
  the handler made its timer with \<open>time.After\<close>. The receive case is ready when the
  channel holds a value; the timer case is ready when the timer's duration has
  passed (at once, for a duration that is not positive). With no case ready the
  handler stays blocked; with one ready that branch runs; with both ready Go chooses,
  and \<open>pickTimer\<close> is its choice.
\<close>

datatype select_result = Blocked | Ran TunnelServer handler_end

definition handleHTTPRequest_select :: "TunnelServer \<Rightarrow> string \<Rightarrow> nat \<Rightarrow> int \<Rightarrow> bool
    \<Rightarrow> select_result" where
  "handleHTTPRequest_select s requestID responseChan elapsed pickTimer =
     (let timerReady = (request_timer (config s) \<le> elapsed)
      in case handleHTTPRequest_received s requestID responseChan of
           None \<Rightarrow>
             if timerReady
             then (case handleHTTPRequest_timeout s requestID of (s1, rep) \<Rightarrow> Ran s1 (Wrote rep))
             else Blocked
         | Some (s1, fin) \<Rightarrow>
             if timerReady \<and> pickTimer
             then (case handleHTTPRequest_timeout s requestID of (s2, rep) \<Rightarrow> Ran s2 (Wrote rep))
             else Ran s1 fin)"

section \<open>The agent: \<open>cmd/client/go_client_MC.go\<close>\<close>

record ClientConfig =
  URL :: string
  AuthToken :: string
  ReconnectAttempts :: int
  ReconnectDelay :: int
  InsecureSkipVerify :: bool
  ServerName :: string
  CACertFile :: string
  LocalHost :: string
  LocalPort :: int

definition DefaultClientConfig :: ClientConfig where
  "DefaultClientConfig =
     \<lparr>URL = ''ws://localhost:6001'', AuthToken = ''default-token'',
      ReconnectAttempts = 10, ReconnectDelay = 5000, InsecureSkipVerify = False,
      ServerName = [], CACertFile = [], LocalHost = ''localhost'', LocalPort = 3000\<rparr>"

text \<open>The agent's state: \<open>conn\<close> is \<open>None\<close> for the nil pointer; \<open>stopChan_closed\<close>
  says whether \<open>stopChan\<close> has been closed.\<close>

record TunnelClient =
  cconfig :: ClientConfig
  conn :: "nat option"
  connected :: bool
  reconnectCount :: int
  stopChan_closed :: bool

definition NewTunnelClient :: "ClientConfig \<Rightarrow> TunnelClient" where
  "NewTunnelClient cfg =
     \<lparr>cconfig = cfg, conn = None, connected = False, reconnectCount = 0,
      stopChan_closed = False\<rparr>"

datatype goroutine = GoHandleMessages | GoReconnect | GoHeartbeat

text \<open>What the agent does to the outside, in order. \<open>Sleep\<close> carries the
  \<open>time.Duration\<close>, in nanoseconds; \<open>LocalCall\<close> is the request made to the local
  service (method, URL, headers set, body).\<close>

datatype action =
    Dial header
  | Sleep int
  | Write nat json
  | Close nat
  | CloseStopChan
  | Go goroutine
  | LocalCall string string "(string \<times> string) list" string
  | LogGiveUp

subsection \<open>\<open>connect\<close>\<close>

definition connect_headers :: "ClientConfig \<Rightarrow> header" where
  "connect_headers cfg =
     AList.update ''X-Tunnel-Port'' [Sprintf_d (LocalPort cfg)]
       (AList.update ''X-Tunnel-Host'' [LocalHost cfg]
          (AList.update ''Authorization'' [''Bearer '' @ AuthToken cfg] []))"

text \<open>\<open>dialed\<close> is what \<open>dialer.Dial\<close> returns: \<open>None\<close> an error, \<open>Some conn\<close> the
  connection. The boolean result is \<open>err == nil\<close>.\<close>

definition connect :: "TunnelClient \<Rightarrow> nat option \<Rightarrow> TunnelClient \<times> bool \<times> action list" where
  "connect c dialed =
     (case dialed of
        None \<Rightarrow> (c, False, [Dial (connect_headers (cconfig c))])
      | Some cn \<Rightarrow>
          (c\<lparr>conn := Some cn, connected := True, reconnectCount := 0\<rparr>, True,
           [Dial (connect_headers (cconfig c)), Go GoHandleMessages]))"

subsection \<open>\<open>sendErrorResponse\<close>, \<open>handleHTTPRequest\<close> and \<open>handlePing\<close> of the agent\<close>

definition errorResponse :: "string \<Rightarrow> string \<Rightarrow> json" where
  "errorResponse requestID errorMsg =
     JObj [(''type'', JStr ''http_response''),
           (''id'', JStr requestID),
           (''data'', JObj
              [(''statusCode'', JNum 500),
               (''headers'', JObj [(''Content-Type'', JStr ''text/plain'')]),
               (''body'', JStr []),
               (''error'', JStr errorMsg)])]"

definition sendErrorResponse :: "TunnelClient \<Rightarrow> string \<Rightarrow> string \<Rightarrow> action list" where
  "sendErrorResponse c requestID errorMsg =
     (case conn c of
        None \<Rightarrow> []
      | Some cn \<Rightarrow> [Write cn (errorResponse requestID errorMsg)])"

text \<open>
  How the call to the local service goes: \<open>http.NewRequest\<close> fails, \<open>client.Do\<close>
  fails (refused, timed out), \<open>io.ReadAll\<close> of the body fails, or a response with
  its status code, header and body arrives. The strings are the texts of the errors.
\<close>

datatype local_result =
    NewRequestErr string
  | DoErr string
  | ReadAllErr string
  | LocalResponse int header string

definition successResponse :: "string \<Rightarrow> int \<Rightarrow> header \<Rightarrow> string \<Rightarrow> json" where
  "successResponse requestID statusCode h respBody =
     JObj [(''type'', JStr ''http_response''),
           (''id'', JStr requestID),
           (''data'', JObj
              [(''statusCode'', JNum (of_int statusCode)),
               (''headers'', JObj (map (\<lambda>(k, v). (k, JStr v)) (first_values h []))),
               (''body'', JStr respBody)])]"

text \<open>The loop \<open>for k, v := range headers { if str, ok := v.(string); ok {
  req.Header.Set(k, str) } }\<close>.\<close>

fun set_string_entries :: "(string \<times> json) list \<Rightarrow> (string \<times> string) list \<Rightarrow> (string \<times> string) list" where
  "set_string_entries [] h = h"
| "set_string_entries ((k, v) # rest) h =
     set_string_entries rest
       (case assert_string v of
          None \<Rightarrow> h
        | Some str \<Rightarrow> AList.update (CanonicalMIMEHeaderKey k) str h)"

definition cli_handleHTTPRequest :: "TunnelClient \<Rightarrow> (string \<times> json) list \<Rightarrow> local_result
    \<Rightarrow> action list" where
  "cli_handleHTTPRequest c msg lr =
     (let data = map_or_nil (index msg ''data'');
          requestID = string_or_zero (index msg ''id'');
          method = string_or_zero (index data ''method'');
          url = string_or_zero (index data ''url'');
          query = string_or_zero (index data ''query'');
          headers = map_or_nil (index data ''headers'');
          body = string_or_zero (index data ''body'');
          localURL0 = ''http://'' @ LocalHost (cconfig c) @ '':'' @ Sprintf_d (LocalPort (cconfig c)) @ url;
          localURL = (if query \<noteq> [] then localURL0 @ ''?'' @ query else localURL0);
          call = LocalCall method localURL (set_string_entries headers []) body
      in (case lr of
            NewRequestErr e \<Rightarrow>
              sendErrorResponse c requestID (''creating the request failed: '' @ e)
          | DoErr e \<Rightarrow>
              call # sendErrorResponse c requestID (''request to the local service failed: '' @ e)
          | ReadAllErr e \<Rightarrow>
              call # sendErrorResponse c requestID (''reading the response body failed: '' @ e)
          | LocalResponse statusCode h respBody \<Rightarrow>
              call # (case conn c of
                        None \<Rightarrow> []
                      | Some cn \<Rightarrow> [Write cn (successResponse requestID statusCode h respBody)])))"

definition handlePing :: "TunnelClient \<Rightarrow> (string \<times> json) list \<Rightarrow> action list" where
  "handlePing c msg =
     (case conn c of
        None \<Rightarrow> []
      | Some cn \<Rightarrow>
          [Write cn (JObj [(''type'', JStr ''pong''), (''id'', JStr (string_or_zero (index msg ''id'')))])])"

subsection \<open>\<open>handleMessages\<close>\<close>

text \<open>What \<open>conn.ReadJSON\<close> returns in one turn of the loop.\<close>

datatype read_result = ReadErr | ReadMsg "(string \<times> json) list"

datatype loop_step = Break | Continue "action list"

text \<open>One turn of the read loop; \<open>lr\<close> is consulted only when the message is an
  \<open>http_request\<close>.\<close>

definition handleMessages_iter :: "TunnelClient \<Rightarrow> read_result \<Rightarrow> local_result \<Rightarrow> loop_step" where
  "handleMessages_iter c rd lr =
     (case conn c of
        None \<Rightarrow> Break
      | Some cn \<Rightarrow>
          (case rd of
             ReadErr \<Rightarrow> Break
           | ReadMsg msg \<Rightarrow>
               let msgType = string_or_zero (index msg ''type'')
               in if msgType = ''connected'' then Continue []
                  else if msgType = ''http_request'' then Continue (cli_handleHTTPRequest c msg lr)
                  else if msgType = ''ping'' then Continue (handlePing c msg)
                  else Continue []))"

text \<open>The deferred function of \<open>handleMessages\<close>, run when the loop breaks.\<close>

definition handleMessages_exit :: "TunnelClient \<Rightarrow> TunnelClient \<times> action list" where
  "handleMessages_exit c =
     (c\<lparr>conn := None, connected := False\<rparr>,
      (case conn c of None \<Rightarrow> [] | Some cn \<Rightarrow> [Close cn]) @ [Go GoReconnect])"

subsection \<open>\<open>heartbeat\<close>\<close>

text \<open>\<open>time.NewTicker(30 * time.Second)\<close>, in nanoseconds.\<close>

definition heartbeat_interval :: int where
  "heartbeat_interval = 30 * 1000000000"

definition heartbeatMsg :: "int \<Rightarrow> json" where
  "heartbeatMsg now = JObj [(''type'', JStr ''heartbeat''), (''time'', JNum (of_int now))]"

text \<open>
  The ticker branch of the loop. \<open>now\<close> is \<open>time.Now().Unix()\<close> and \<open>writeOk\<close> says
  whether \<open>WriteJSON\<close> returns nil; the source drops that result, so nothing below
  depends on it. The state is returned to show what the branch leaves of it.
\<close>

definition heartbeat_tick :: "TunnelClient \<Rightarrow> int \<Rightarrow> bool \<Rightarrow> TunnelClient \<times> action list" where
  "heartbeat_tick c now writeOk =
     (if \<not> connected c then (c, [])
      else (case conn c of
              None \<Rightarrow> (c, [])
            | Some cn \<Rightarrow> (c, [Write cn (heartbeatMsg now)])))"

text \<open>The loop: each event is a tick (with the clock and the write's outcome) or the
  closing of \<open>stopChan\<close>, on which the function returns.\<close>

datatype hb_event = Tick int bool | StopClosed

fun heartbeat :: "TunnelClient \<Rightarrow> hb_event list \<Rightarrow> TunnelClient \<times> action list" where
  "heartbeat c [] = (c, [])"
| "heartbeat c (StopClosed # evs) = (c, [])"
| "heartbeat c (Tick now writeOk # evs) =
     (let (c1, as) = heartbeat_tick c now writeOk;
          (c2, bs) = heartbeat c1 evs
      in (c2, as @ bs))"

subsection \<open>\<open>reconnect\<close> and \<open>Stop\<close>\<close>

text \<open>\<open>time.Duration(ReconnectDelay * count) * time.Millisecond\<close>: two 64-bit
  multiplications.\<close>

definition reconnect_delay :: "ClientConfig \<Rightarrow> int \<Rightarrow> int" where
  "reconnect_delay cfg count = wrap64 (wrap64 (ReconnectDelay cfg * count) * 1000000)"

text \<open>
  \<open>reconnect\<close>, with the outcomes of the dials to come as a list. A failed
  \<open>connect\<close> starts \<open>reconnect\<close> again (\<open>go c.reconnect()\<close>), which is the recursive
  call. When the list is used up the trace ends after the sleep, before the dial.
\<close>

fun reconnect :: "TunnelClient \<Rightarrow> nat option list \<Rightarrow> TunnelClient \<times> action list" where
  "reconnect c dials =
     (let count = wrap64 (reconnectCount c + 1);
          c1 = c\<lparr>reconnectCount := count\<rparr>
      in if count > ReconnectAttempts (cconfig c) then (c1, [LogGiveUp])
         else
           (case dials of
              [] \<Rightarrow> (c1, [Sleep (reconnect_delay (cconfig c) count)])
            | dialed # rest \<Rightarrow>
                (case connect c1 dialed of
                   (c2, True, as) \<Rightarrow> (c2, Sleep (reconnect_delay (cconfig c) count) # as)
                 | (c2, False, as) \<Rightarrow>
                     (case reconnect c2 rest of
                        (c3, bs) \<Rightarrow> (c3, Sleep (reconnect_delay (cconfig c) count) # as @ bs)))))"

declare reconnect.simps [simp del]

text \<open>\<open>Stop\<close>: closing a channel that is already closed panics (\<open>None\<close>).\<close>

definition Stop :: "TunnelClient \<Rightarrow> (TunnelClient \<times> action list) option" where
  "Stop c =
     (if stopChan_closed c then None
      else Some (c\<lparr>stopChan_closed := True, connected := False\<rparr>,
                 CloseStopChan # (case conn c of None \<Rightarrow> [] | Some cn \<Rightarrow> [Close cn])))"

section \<open>Notions used to state the properties\<close>

subsection \<open>Headers and messages\<close>







text \<open>A field of a message's \<open>data\<close>, and the header map a receiver reads from it.\<close>

definition data_field :: "json \<Rightarrow> string \<Rightarrow> json" where
  "data_field m k = index (map_or_nil (index (map_or_nil m) ''data'')) k"

definition data_headers :: "json \<Rightarrow> (string \<times> string) list" where
  "data_headers m = string_entries (map_or_nil (data_field m ''headers'')) []"


fun sleeps :: "action list \<Rightarrow> int list" where
  "sleeps [] = []"
| "sleeps (Sleep d # as) = d # sleeps as"
| "sleeps (_ # as) = sleeps as"

fun dial_count :: "action list \<Rightarrow> nat" where
  "dial_count [] = 0"
| "dial_count (Dial h # as) = Suc (dial_count as)"
| "dial_count (_ # as) = dial_count as"

text \<open>The clock readings of the ticks a heartbeat loop sees before \<open>stopChan\<close>
  closes.\<close>

fun tick_times :: "hb_event list \<Rightarrow> int list" where
  "tick_times [] = []"
| "tick_times (StopClosed # evs) = []"
| "tick_times (Tick now writeOk # evs) = now # tick_times evs"

fun replied_status :: "forward_result \<Rightarrow> int option" where
  "replied_status (Replied rep) = Some (status rep)"
| "replied_status (Waiting rid ch) = None"
| "replied_status Panicked = None"

subsection \<open>Runs of the relay's correlator\<close>

text \<open>
  The relay's handlers run concurrently, and every access to \<open>pendingRequests\<close> is
  under \<open>requestMux\<close>; a run is therefore a sequence of these steps, in any order:
  a handler forwards a request (up to its \<open>select\<close>), the read loop hands a message
  to \<open>handleHTTPResponse\<close>, a handler's receive branch runs, a handler's timer branch
  runs. A receive branch that is not ready leaves the state as it is.
\<close>

datatype event =
    EvForward Request int write_result
  | EvResponse "(string \<times> json) list"
  | EvReceived string nat
  | EvTimeout string

fun step :: "TunnelServer \<Rightarrow> event \<Rightarrow> TunnelServer" where
  "step s (EvForward r nowNano wr) = fst (handleHTTPRequest_send s r nowNano wr)"
| "step s (EvResponse msg) = fst (handleHTTPResponse s msg)"
| "step s (EvReceived requestID responseChan) =
     (case handleHTTPRequest_received s requestID responseChan of
        None \<Rightarrow> s
      | Some (s', _) \<Rightarrow> s')"
| "step s (EvTimeout requestID) = fst (handleHTTPRequest_timeout s requestID)"

fun run :: "TunnelServer \<Rightarrow> event list \<Rightarrow> TunnelServer" where
  "run s [] = s"
| "run s (e # es) = run (step s e) es"

definition registered :: "TunnelServer \<Rightarrow> string \<Rightarrow> bool" where
  "registered s rid = (map_of (pendingRequests s) rid \<noteq> None)"



text \<open>
  What every state of the relay satisfies: the pending channels were all made
  (their addresses lie below \<open>nextChan\<close>), the table has one entry for an identifier,
  and no two identifiers share a channel.
\<close>

definition pending_ok :: "TunnelServer \<Rightarrow> bool" where
  "pending_ok s =
     (list_all (\<lambda>(requestID, ch). ch < nextChan s) (pendingRequests s)
      \<and> distinct (map fst (pendingRequests s))
      \<and> distinct (map snd (pendingRequests s)))"

text \<open>An \<open>http_response\<close> message whose correlation key is \<open>rid\<close> and whose
  \<open>data\<close> is an object.\<close>

definition matching :: "string \<Rightarrow> (string \<times> json) list \<Rightarrow> bool" where
  "matching rid msg =
     (assert_string (index msg ''id'') = Some rid \<and> assert_map (index msg ''data'') \<noteq> None)"

text \<open>
  \<open>forwards rid e\<close>: the step forwards a request under the identifier \<open>rid\<close>.
  \<open>resolving rid e\<close>: the step is the matching response or the timeout of \<open>rid\<close>.
  \<open>may_remove rid e\<close>: one of these, or the receive branch of \<open>rid\<close>'s handler.
\<close>

fun forwards :: "string \<Rightarrow> event \<Rightarrow> bool" where
  "forwards rid (EvForward r nowNano wr) = (''req_'' @ Sprintf_d nowNano = rid)"
| "forwards rid _ = False"

fun resolving :: "string \<Rightarrow> event \<Rightarrow> bool" where
  "resolving rid (EvResponse msg) = matching rid msg"
| "resolving rid (EvTimeout requestID) = (requestID = rid)"
| "resolving rid _ = False"

fun may_remove :: "string \<Rightarrow> event \<Rightarrow> bool" where
  "may_remove rid (EvReceived requestID responseChan) = (requestID = rid)"
| "may_remove rid e = (forwards rid e \<or> resolving rid e)"

subsection \<open>Concrete inputs\<close>

definition ex_auth :: header where
  "ex_auth = [(''Authorization'', [''Bearer default-token''])]"

definition ex_bad_auth :: header where
  "ex_bad_auth = [(''Authorization'', [''Bearer wrong''])]"

definition ex_bigport :: header where
  "ex_bigport = [(''Authorization'', [''Bearer default-token'']),
                 (''X-Tunnel-Port'', [''99999999999999999999''])]"

text \<open>A relay with one agent registered, and the same relay with the request
  \<open>req_7\<close> pending on channel 0.\<close>

definition ex_relay :: TunnelServer where
  "ex_relay = (NewTunnelServer DefaultConfig)
     \<lparr>clients := [(''client_5'', \<lparr>ID = ''client_5'', Conn = 1, ClientHost = ''localhost'',
                                  ClientPort = 3000, LastPing = 5\<rparr>)]\<rparr>"

definition ex_pending :: TunnelServer where
  "ex_pending = ex_relay\<lparr>pendingRequests := [(''req_7'', 0)], nextChan := 1\<rparr>"


definition ex_error_data :: "(string \<times> json) list" where
  "ex_error_data = [(''statusCode'', JNum 500), (''body'', JStr []), (''error'', JStr ''refused'')]"

definition ex_error_response :: "(string \<times> json) list" where
  "ex_error_response = [(''type'', JStr ''http_response''), (''id'', JStr ''req_7''),
                        (''data'', JObj ex_error_data)]"

text \<open>A public request with two values for one header name, and a local response
  with two cookies.\<close>

definition ex_request :: Request where
  "ex_request = \<lparr>Method = ''GET'', Path = ''/status'', RawQuery = ''x=1'',
                  ReqHeader = [(''Accept'', [''text/html'', ''text/plain''])],
                  ReqBody = Some []\<rparr>"






text \<open>A connected agent; the same with a reconnect delay of zero.\<close>

definition ex_client :: TunnelClient where
  "ex_client = (NewTunnelClient DefaultClientConfig)\<lparr>conn := Some 1, connected := True\<rparr>"

definition ex_client0 :: TunnelClient where
  "ex_client0 = ex_client\<lparr>cconfig := DefaultClientConfig\<lparr>ReconnectDelay := 0\<rparr>\<rparr>"

text \<open>The zero-delay agent after \<open>Stop\<close>, and after its read loop has then ended.\<close>

definition ex_stopped :: TunnelClient where
  "ex_stopped = ex_client0\<lparr>stopChan_closed := True, connected := False\<rparr>"

definition ex_closed :: TunnelClient where
  "ex_closed = ex_stopped\<lparr>conn := None\<rparr>"


section \<open>Properties\<close>

subsection \<open>Evaluation of the concrete inputs\<close>

lemma Sprintf_d_5: "Sprintf_d 5 = ''5''"
  by (simp add: Sprintf_d_def digits.simps digit_char_def)

lemma Sprintf_d_7: "Sprintf_d 7 = ''7''"
  by (simp add: Sprintf_d_def digits.simps digit_char_def)


lemma Atoi_empty: "Atoi [] = (0, False)"
  by (simp add: Atoi_def)

lemma Atoi_out_of_range: "Atoi ''99999999999999999999'' = (9223372036854775807, False)"
  by (simp add: Atoi_def is_digit_def)

subsection \<open>The handshake\<close>

lemma token_loop_set: "token_loop token vs \<longleftrightarrow> token \<in> set vs"
  by (induction vs) auto

lemma validateToken_iff:
  "validateToken cfg a \<longleftrightarrow> a \<noteq> [] \<and> bearer_token a \<in> set (Tokens cfg)"
  by (simp add: validateToken_def token_loop_set)

text \<open>An accepted handshake registers a client under the identifier made from the
  clock, with the defaults for a missing host and for a port that \<open>Atoi\<close> returns as
  zero; no header value makes the handler refuse.\<close>

lemma handleWebSocket_accept:
  assumes "\<not> RequireAuth (config s) \<or> validateToken (config s) (Header_Get h ''Authorization'')"
  shows "\<exists>client. handleWebSocket s h now (Some cn) =
           (s\<lparr>clients := AList.update (''client_'' @ Sprintf_d now) client (clients s)\<rparr>, Some client,
            [Upgrade, WriteJSON cn (welcomeMsg (config s) (ID client) (ClientHost client) (ClientPort client))])
         \<and> ID client = ''client_'' @ Sprintf_d now \<and> Conn client = cn
         \<and> ClientHost client =
             (if Header_Get h ''X-Tunnel-Host'' = [] then ''localhost'' else Header_Get h ''X-Tunnel-Host'')
         \<and> ClientPort client =
             (if fst (Atoi (Header_Get h ''X-Tunnel-Port'')) = 0 then 3000
              else fst (Atoi (Header_Get h ''X-Tunnel-Port'')))"
  using assms by (auto simp add: handleWebSocket_def Let_def)

text \<open>
  C8. When authentication is required and the token presented in the
  \<open>Authorization\<close> header is none of the configured tokens, \<open>handleWebSocket\<close> answers
  401 and does nothing else: the upgrade is not attempted, the state (and with it the
  registry) is unchanged, and no client is registered.
\<close>

theorem handshake_unauthorized_rejected:
  assumes "RequireAuth (config s)"
    and "bearer_token (Header_Get h ''Authorization'') \<notin> set (Tokens (config s))"
  shows "handleWebSocket s h now upgraded = (s, None, [HttpError ''authentication failed'' 401])"
  using assms by (simp add: handleWebSocket_def validateToken_iff)

theorem handshake_unauthorized_rejected_witness:
  "RequireAuth (config ex_relay)
   \<and> bearer_token (Header_Get ex_bad_auth ''Authorization'') \<notin> set (Tokens (config ex_relay))
   \<and> handleWebSocket ex_relay ex_bad_auth 1700000000 (Some 2)
       = (ex_relay, None, [HttpError ''authentication failed'' 401])"
proof -
  have a: "RequireAuth (config ex_relay)"
    by (simp add: ex_relay_def NewTunnelServer_def DefaultConfig_def)
  have b: "bearer_token (Header_Get ex_bad_auth ''Authorization'') \<notin> set (Tokens (config ex_relay))"
    by (simp add: ex_relay_def ex_bad_auth_def NewTunnelServer_def DefaultConfig_def
        bearer_token_def Header_Get_def)
  show ?thesis
    using a b handshake_unauthorized_rejected [OF a b, of 1700000000 "Some 2"] by simp
qed

text \<open>
  C9, as the claim states it, fails. The relay holds a session under \<open>client_5\<close> on
  connection 1. A second handshake in the same clock second makes the same
  identifier; it is accepted (a client is registered), and the registry then maps
  \<open>client_5\<close> to connection 2: the earlier session's entry is replaced without any
  failure. The first conjunct shows that the starting state is what a first handshake
  at that second leaves.
\<close>

theorem duplicate_session_counterexample:
  "fst (handleWebSocket (NewTunnelServer DefaultConfig) ex_auth 5 (Some 1)) = ex_relay
   \<and> map_option Conn (map_of (clients ex_relay) ''client_5'') = Some 1
   \<and> fst (snd (handleWebSocket ex_relay ex_auth 5 (Some 2))) \<noteq> None
   \<and> map_option Conn (map_of (clients (fst (handleWebSocket ex_relay ex_auth 5 (Some 2)))) ''client_5'')
       = Some 2
   \<and> length (clients (fst (handleWebSocket ex_relay ex_auth 5 (Some 2)))) = 1"
  by (simp add: handleWebSocket_def ex_relay_def ex_auth_def Header_Get_def validateToken_iff bearer_token_def
      NewTunnelServer_def DefaultConfig_def Atoi_empty Sprintf_d_5 Let_def)

text \<open>
  C9, amended. A handshake that is accepted registers its client under the identifier
  \<open>client_<seconds>\<close> by plain assignment: afterwards the registry maps that identifier
  to the new client on the new connection, whether or not the identifier was present
  before, and every other identifier is mapped as before. (The registry being a map,
  an identifier never has two entries.)
\<close>

theorem register_replaces:
  assumes "handleWebSocket s h now (Some cn) = (s', Some client, acts)"
  shows "ID client = ''client_'' @ Sprintf_d now \<and> Conn client = cn
         \<and> map_of (clients s') = (map_of (clients s))(ID client \<mapsto> client)"
  using assms
  by (auto simp add: handleWebSocket_def Let_def update_conv' split: if_splits)

theorem register_replaces_witness:
  "map_option Conn (map_of (clients ex_relay) ''client_5'') = Some 1
   \<and> map_option Conn (map_of (clients (fst (handleWebSocket ex_relay ex_auth 5 (Some 2)))) ''client_5'')
       = Some 2"
proof -
  obtain s' client acts
    where h: "handleWebSocket ex_relay ex_auth 5 (Some 2) = (s', Some client, acts)"
    by (simp add: handleWebSocket_def ex_relay_def ex_auth_def Header_Get_def validateToken_iff bearer_token_def
        NewTunnelServer_def DefaultConfig_def Let_def)
  have before: "map_option Conn (map_of (clients ex_relay) ''client_5'') = Some 1"
    by (simp add: ex_relay_def)
  from register_replaces [OF h] h before show ?thesis
    by (simp add: Sprintf_d_5)
qed

text \<open>
  C10 fails on the port. The handshake below is accepted and carries the header
  \<open>X-Tunnel-Port: 99999999999999999999\<close>. \<open>Atoi\<close> reports an error for it (the value
  is out of range), so the header does not parse to an integer; but \<open>Atoi\<close> returns
  the largest \<open>int\<close> with that error, the handler looks only at the value, and the
  session is registered with port 9223372036854775807 instead of 3000.
\<close>

theorem port_out_of_range_not_defaulted:
  "snd (Atoi (Header_Get ex_bigport ''X-Tunnel-Port'')) = False
   \<and> map_option ClientPort (fst (snd (handleWebSocket ex_relay ex_bigport 1700000000 (Some 2))))
       = Some 9223372036854775807"
  by (simp add: handleWebSocket_def ex_bigport_def ex_relay_def Header_Get_def Atoi_out_of_range
      validateToken_iff bearer_token_def NewTunnelServer_def DefaultConfig_def Let_def)

subsection \<open>The pending-request table\<close>


lemma pending_send:
  "map_of (pendingRequests (fst (handleHTTPRequest_send s r n w))) rid =
     (if length (clients s) = 0 \<or> ReqBody r = None then map_of (pendingRequests s) rid
      else if ''req_'' @ Sprintf_d n = rid
        then (if w = WriteErr then None else Some (nextChan s))
      else map_of (pendingRequests s) rid)"
  by (auto simp add: handleHTTPRequest_send_def Let_def update_conv' delete_conv'
      split: option.splits write_result.splits)

lemma pending_response:
  "map_of (pendingRequests (fst (handleHTTPResponse s msg))) rid =
     (if matching rid msg then None else map_of (pendingRequests s) rid)"
  by (auto simp add: handleHTTPResponse_def matching_def Let_def delete_conv'
      split: option.splits)

lemma pending_received:
  "handleHTTPRequest_received s requestID ch = Some (s', rep) \<Longrightarrow>
     map_of (pendingRequests s') rid =
       (if requestID = rid then None else map_of (pendingRequests s) rid)"
  by (auto simp add: handleHTTPRequest_received_def Let_def delete_conv'
      split: list.splits if_splits)

lemma pending_timeout:
  "map_of (pendingRequests (fst (handleHTTPRequest_timeout s requestID))) rid =
     (if requestID = rid then None else map_of (pendingRequests s) rid)"
  by (simp add: handleHTTPRequest_timeout_def delete_conv')

text \<open>A step that is not about \<open>rid\<close> leaves its entry alone; no step but a forward
  under \<open>rid\<close> creates it; the matching response and the timeout remove it.\<close>

lemma step_keeps:
  "\<not> may_remove rid e \<Longrightarrow>
     map_of (pendingRequests (step s e)) rid = map_of (pendingRequests s) rid"
  by (cases e)
    (auto simp add: pending_send pending_response pending_timeout pending_received
      split: option.splits)











text \<open>What the handler's first phase leaves when it goes on to wait, what a matching
  response does to a registered request whose channel is empty, and what the receive
  branch answers.\<close>

lemma send_waiting:
  assumes "handleHTTPRequest_send s r n w = (s1, Waiting rid ch, acts)"
  shows "rid = ''req_'' @ Sprintf_d n \<and> ch = nextChan s \<and> w = WriteOk \<and> clients s \<noteq> []
         \<and> (\<exists>b. ReqBody r = Some b
                \<and> acts = [WriteJSON (Conn (snd (hd (clients s)))) (requestMsg rid r b)])
         \<and> map_of (pendingRequests s1) rid = Some ch \<and> chans s1 ch = []"
  using assms
  by (auto simp add: handleHTTPRequest_send_def Let_def update_conv'
      split: if_splits option.splits write_result.splits)

lemma response_delivered:
  assumes "map_of (pendingRequests s) rid = Some ch" and "chans s ch = []"
    and "index msg ''id'' = JStr rid" and "index msg ''data'' = JObj data"
  shows "handleHTTPResponse s msg =
           (s\<lparr>pendingRequests := AList.delete rid (pendingRequests s),
              chans := (chans s)(ch := [decode_response data])\<rparr>,
            LogHandled rid (StatusCode (decode_response data)))"
  using assms by (simp add: handleHTTPResponse_def Let_def)

lemma received_reply:
  assumes "chans s ch = response # rest"
  shows "handleHTTPRequest_received s rid ch =
           Some (s\<lparr>chans := (chans s)(ch := rest),
                    pendingRequests := AList.delete rid (pendingRequests s)\<rparr>,
                 if Error response \<noteq> [] then Wrote (http_Error (Error response) 502)
                 else if StatusCode response < 100 \<or> StatusCode response > 999
                 then HandlerPanic
                 else Wrote \<lparr>status = StatusCode response,
                             rheaders = set_headers (Headers response) [],
                             rbody = Body response\<rparr>)"
  using assms by (simp add: handleHTTPRequest_received_def Let_def)

text \<open>The invariant: it holds at the start, and every step and every handshake
  keeps it.\<close>

lemma list_all_update:
  "list_all P al \<Longrightarrow> P (k, v) \<Longrightarrow> list_all P (AList.update k v al)"
  by (induction al) auto

lemma list_all_delete: "list_all P al \<Longrightarrow> list_all P (AList.delete k al)"
  by (simp add: AList.delete_eq list_all_iff)

lemma distinct_snd_delete:
  "distinct (map snd al) \<Longrightarrow> distinct (map snd (AList.delete k al))"
  by (simp add: AList.delete_eq distinct_map_filter)

lemma snd_set_update: "snd ` set (AList.update k v al) \<subseteq> insert v (snd ` set al)"
  by (induction al) auto

lemma distinct_snd_update:
  "distinct (map snd al) \<Longrightarrow> v \<notin> snd ` set al \<Longrightarrow> distinct (map snd (AList.update k v al))"
proof (induction al)
  case Nil
  then show ?case by simp
next
  case (Cons p al)
  obtain k' v' where p: "p = (k', v')" by (cases p)
  show ?case
  proof (cases "k' = k")
    case True
    with Cons.prems p show ?thesis by auto
  next
    case False
    have "v' \<notin> snd ` set (AList.update k v al)"
      using snd_set_update [of k v al] Cons.prems p by auto
    with False Cons p show ?thesis by auto
  qed
qed

lemma pending_ok_inj:
  assumes "pending_ok s" and "map_of (pendingRequests s) rid = Some ch"
    and "map_of (pendingRequests s) rid' = Some ch"
  shows "rid' = rid"
proof -
  from assms have inj: "inj_on snd (set (pendingRequests s))"
    by (simp add: pending_ok_def distinct_map)
  from assms have m1: "(rid, ch) \<in> set (pendingRequests s)"
    and m2: "(rid', ch) \<in> set (pendingRequests s)"
    by (auto dest: map_of_SomeD)
  have "snd (rid', ch) = snd (rid, ch)" by simp
  from inj_onD [OF inj this m2 m1] show ?thesis by simp
qed

lemma pending_ok_delete:
  "pending_ok s \<Longrightarrow> pending_ok (s\<lparr>pendingRequests := AList.delete k (pendingRequests s)\<rparr>)"
  by (simp add: pending_ok_def distinct_delete list_all_delete distinct_snd_delete)

lemma pending_ok_chans: "pending_ok (s\<lparr>chans := f\<rparr>) = pending_ok s"
  by (simp add: pending_ok_def)

lemma pending_ok_send: "pending_ok s \<Longrightarrow> pending_ok (fst (handleHTTPRequest_send s r n w))"
proof -
  assume ok: "pending_ok s"
  have fresh: "nextChan s \<notin> snd ` set (pendingRequests s)"
    using ok by (auto simp add: pending_ok_def list_all_iff)
  have less: "list_all (\<lambda>(requestID, ch). ch < Suc (nextChan s)) (pendingRequests s)"
    using ok by (auto simp add: pending_ok_def list_all_iff)
  show ?thesis
    using ok fresh less
    by (auto simp add: handleHTTPRequest_send_def Let_def pending_ok_def distinct_update distinct_delete
        list_all_update list_all_delete distinct_snd_update distinct_snd_delete
        split: option.splits write_result.splits)
qed

lemma pending_ok_response: "pending_ok s \<Longrightarrow> pending_ok (fst (handleHTTPResponse s msg))"
  by (auto simp add: handleHTTPResponse_def Let_def pending_ok_def distinct_delete list_all_delete
      distinct_snd_delete split: option.splits)

lemma pending_ok_received:
  "pending_ok s \<Longrightarrow> handleHTTPRequest_received s requestID ch = Some (s', rep) \<Longrightarrow> pending_ok s'"
  by (auto simp add: handleHTTPRequest_received_def Let_def pending_ok_def distinct_delete list_all_delete
      distinct_snd_delete split: list.splits if_splits)

lemma pending_ok_timeout: "pending_ok s \<Longrightarrow> pending_ok (fst (handleHTTPRequest_timeout s requestID))"
  by (simp add: handleHTTPRequest_timeout_def pending_ok_def distinct_delete list_all_delete
      distinct_snd_delete)

lemma pending_ok_step: "pending_ok s \<Longrightarrow> pending_ok (step s e)"
  by (cases e)
    (auto simp add: pending_ok_send pending_ok_response pending_ok_timeout pending_ok_received
      split: option.splits)

lemma pending_ok_new: "pending_ok (NewTunnelServer cfg)"
  by (simp add: pending_ok_def NewTunnelServer_def)

lemma step_keeps_empty:
  assumes ok: "pending_ok s" and reg: "map_of (pendingRequests s) rid = Some ch"
    and empty: "chans s ch = []" and e: "\<not> may_remove rid e"
  shows "chans (step s e) ch = []"
proof (cases e)
  case (EvForward r n w)
  then show ?thesis
    using empty
    by (auto simp add: handleHTTPRequest_send_def Let_def split: option.splits write_result.splits)
next
  case (EvResponse msg)
  show ?thesis
  proof (cases "assert_string (index msg ''id'')")
    case None
    then show ?thesis
      using empty EvResponse by (simp add: handleHTTPResponse_def)
  next
    case (Some rid')
    note id = this
    show ?thesis
    proof (cases "assert_map (index msg ''data'')")
      case None
      then show ?thesis
        using empty EvResponse id by (simp add: handleHTTPResponse_def)
    next
      case (Some data)
      note data = this
      from e EvResponse id data have ne: "rid' \<noteq> rid"
        by (auto simp add: matching_def)
      show ?thesis
      proof (cases "map_of (pendingRequests s) rid'")
        case None
        then show ?thesis
          using empty EvResponse id data by (simp add: handleHTTPResponse_def)
      next
        case (Some ch')
        from pending_ok_inj [OF ok reg] Some ne have "ch' \<noteq> ch"
          by auto
        then show ?thesis
          using empty EvResponse id data Some
          by (simp add: handleHTTPResponse_def Let_def)
      qed
    qed
  qed
next
  case (EvReceived requestID ch')
  then show ?thesis
    using empty
    by (auto simp add: handleHTTPRequest_received_def Let_def split: list.splits)
next
  case (EvTimeout requestID)
  then show ?thesis
    using empty by (simp add: handleHTTPRequest_timeout_def)
qed

lemma run_keeps_empty:
  assumes "pending_ok s" and "map_of (pendingRequests s) rid = Some ch" and "chans s ch = []"
    and "\<forall>e \<in> set es. \<not> may_remove rid e"
  shows "chans (run s es) ch = []"
  using assms
proof (induction es arbitrary: s)
  case Nil
  then show ?case by simp
next
  case (Cons e es)
  have "pending_ok (step s e)"
    using Cons.prems(1) by (rule pending_ok_step)
  moreover have "map_of (pendingRequests (step s e)) rid = Some ch"
    using Cons.prems by (simp add: step_keeps)
  moreover have "chans (step s e) ch = []"
    using Cons.prems by (intro step_keeps_empty) auto
  ultimately show ?case
    using Cons.prems by (simp add: Cons.IH)
qed

lemma pending_ok_run: "pending_ok s \<Longrightarrow> pending_ok (run s es)"
  by (induction es arbitrary: s) (auto simp add: pending_ok_step)

lemma pending_ok_handshake:
  "pending_ok s \<Longrightarrow> pending_ok (fst (handleWebSocket s h now upgraded))"
  by (auto simp add: handleWebSocket_def pending_ok_def Let_def split: option.splits)







subsection \<open>Forwarding a request and relaying the answer\<close>




lemma distinct_string_entries:
  "distinct (map fst acc) \<Longrightarrow> distinct (map fst (string_entries xs acc))"
  by (induction xs arbitrary: acc) (auto simp add: distinct_update split: option.splits)



lemma distinct_data_headers: "distinct (map fst (data_headers m))"
  by (simp add: data_headers_def distinct_string_entries)







lemma wire_fields_strings:
  "wire_fields (map (\<lambda>(k, v). (k, JStr v)) xs)
     = map (\<lambda>(k, v). (to_valid_utf8 k, JStr (to_valid_utf8 v))) xs"
  by (induction xs) auto
















text \<open>No step of the relay changes its configuration.\<close>

lemma config_send: "config (fst (handleHTTPRequest_send s r n w)) = config s"
  by (simp add: handleHTTPRequest_send_def Let_def split: option.splits write_result.splits)

lemma config_response: "config (fst (handleHTTPResponse s msg)) = config s"
  by (simp add: handleHTTPResponse_def Let_def split: option.splits)

lemma config_received:
  "handleHTTPRequest_received s rid ch = Some (s', fin) \<Longrightarrow> config s' = config s"
  by (auto simp add: handleHTTPRequest_received_def Let_def split: list.splits if_splits)

lemma config_timeout: "config (fst (handleHTTPRequest_timeout s rid)) = config s"
  by (simp add: handleHTTPRequest_timeout_def)

lemma config_step: "config (step s e) = config s"
  by (cases e)
    (auto simp add: config_send config_response config_timeout config_received
      split: option.splits)

lemma config_run: "config (run s es) = config s"
  by (induction es arbitrary: s) (simp_all add: config_step)

text \<open>The \<open>select\<close> with an empty channel, and with a response in the channel before
  the timer has run out.\<close>

lemma select_empty:
  "chans s ch = [] \<Longrightarrow>
   handleHTTPRequest_select s rid ch elapsed pick =
     (if request_timer (config s) \<le> elapsed
      then Ran (s\<lparr>pendingRequests := AList.delete rid (pendingRequests s)\<rparr>)
             (Wrote (http_Error ''request timed out'' 504))
      else Blocked)"
  by (simp add: handleHTTPRequest_select_def handleHTTPRequest_received_def
      handleHTTPRequest_timeout_def Let_def)

lemma select_received:
  "handleHTTPRequest_received s rid ch = Some (s', fin) \<Longrightarrow> elapsed < request_timer (config s) \<Longrightarrow>
   handleHTTPRequest_select s rid ch elapsed pick = Ran s' fin"
  by (simp add: handleHTTPRequest_select_def Let_def)

lemma request_timer_exact:
  "0 \<le> RequestTimeout cfg \<Longrightarrow> RequestTimeout cfg * 1000000 < 2 ^ 63 \<Longrightarrow>
   request_timer cfg = RequestTimeout cfg * 1000000"
proof -
  assume a: "0 \<le> RequestTimeout cfg" and b: "RequestTimeout cfg * 1000000 < 2 ^ 63"
  let ?x = "RequestTimeout cfg * 1000000"
  from a have "0 \<le> ?x + 2 ^ 63" by simp
  moreover from b have "?x + 2 ^ 63 < 2 ^ 64" by simp
  ultimately have "(?x + 2 ^ 63) mod 2 ^ 64 = ?x + 2 ^ 63"
    by (rule mod_pos_pos_trivial)
  then show ?thesis
    by (simp add: request_timer_def wrap64_def)
qed

text \<open>
  C3. The forwarding handler answers
  \<^item> 503 when no client is registered;
  \<^item> 502, with the error text, when the \<open>http_response\<close> that reaches its channel
    carries a non-empty \<open>error\<close> string: here the response arrives for a registered
    request with an empty channel; the handler's receive branch then answers 502, and
    that is the branch its \<open>select\<close> runs while the timer has not run out;
  \<^item> 504 when no matching response arrives within the request timeout: the handler
    has written the message and waits under \<open>qid\<close> on channel \<open>qch\<close>; the steps
    \<open>pre\<close> that the relay has made since are not about \<open>qid\<close> (no matching
    response among them); then the \<open>select\<close>, looked at \<open>elapsed\<close> nanoseconds
    after the handler made its timer, stays blocked as long as \<open>elapsed\<close> is below the
    timer's duration, and from that duration on it runs the timer branch, which
    answers 504 and removes the entry;
  \<^item> the timer's duration is \<open>RequestTimeout\<close> milliseconds, for a configured value
    that is not negative and whose nanoseconds fit 64 bits.
\<close>

theorem forward_error_statuses:
  "(clients s = [] \<longrightarrow> replied_status (fst (snd (handleHTTPRequest_send s r n w))) = Some 503)
   \<and> (map_of (pendingRequests s) rid = Some ch \<and> chans s ch = [] \<and> index msg ''id'' = JStr rid
        \<and> index msg ''data'' = JObj data \<and> index data ''error'' = JStr err \<and> err \<noteq> []
      \<longrightarrow> map_option snd (handleHTTPRequest_received (fst (handleHTTPResponse s msg)) rid ch)
            = Some (Wrote (http_Error err 502))
          \<and> status (http_Error err 502) = 502
          \<and> (elapsed < request_timer (config s)
              \<longrightarrow> (\<exists>s'. handleHTTPRequest_select (fst (handleHTTPResponse s msg)) rid ch elapsed pick
                         = Ran s' (Wrote (http_Error err 502)))))
   \<and> (pending_ok t \<and> handleHTTPRequest_send t q m v = (t', Waiting qid qch, acts)
        \<and> (\<forall>e \<in> set pre. \<not> may_remove qid e)
      \<longrightarrow> (elapsed < request_timer (config t)
             \<longrightarrow> handleHTTPRequest_select (run t' pre) qid qch elapsed pick = Blocked)
          \<and> (request_timer (config t) \<le> elapsed
             \<longrightarrow> (\<exists>s'. handleHTTPRequest_select (run t' pre) qid qch elapsed pick
                          = Ran s' (Wrote (http_Error ''request timed out'' 504))
                        \<and> \<not> registered s' qid))
          \<and> status (http_Error ''request timed out'' 504) = 504)
   \<and> (0 \<le> RequestTimeout (config t) \<and> RequestTimeout (config t) * 1000000 < 2 ^ 63
      \<longrightarrow> request_timer (config t) = RequestTimeout (config t) * 1000000)"
proof -
  have a: "clients s = [] \<longrightarrow> replied_status (fst (snd (handleHTTPRequest_send s r n w))) = Some 503"
    by (simp add: handleHTTPRequest_send_def http_Error_def)
  have b: "map_option snd (handleHTTPRequest_received (fst (handleHTTPResponse s msg)) rid ch)
            = Some (Wrote (http_Error err 502))
          \<and> status (http_Error err 502) = 502
          \<and> (elapsed < request_timer (config s)
              \<longrightarrow> (\<exists>s'. handleHTTPRequest_select (fst (handleHTTPResponse s msg)) rid ch elapsed pick
                         = Ran s' (Wrote (http_Error err 502))))"
    if reg: "map_of (pendingRequests s) rid = Some ch" and empty: "chans s ch = []"
      and rid: "index msg ''id'' = JStr rid" and data: "index msg ''data'' = JObj data"
      and err: "index data ''error'' = JStr err" "err \<noteq> []"
  proof -
    let ?s' = "fst (handleHTTPResponse s msg)"
    have ch: "chans ?s' ch = [decode_response data]"
      using response_delivered [OF reg empty rid data] by simp
    have e: "Error (decode_response data) = err"
      using err by (simp add: decode_response_def)
    obtain s2 where recv: "handleHTTPRequest_received ?s' rid ch
        = Some (s2, Wrote (http_Error err 502))"
      using received_reply [OF ch, of rid] err e by simp
    have sel: "handleHTTPRequest_select ?s' rid ch elapsed pick = Ran s2 (Wrote (http_Error err 502))"
      if "elapsed < request_timer (config s)"
      using select_received [OF recv] that by (simp add: config_response)
    from recv sel show ?thesis
      by (auto simp add: http_Error_def)
  qed
  have c: "(elapsed < request_timer (config t)
             \<longrightarrow> handleHTTPRequest_select (run t' pre) qid qch elapsed pick = Blocked)
          \<and> (request_timer (config t) \<le> elapsed
             \<longrightarrow> (\<exists>s'. handleHTTPRequest_select (run t' pre) qid qch elapsed pick
                          = Ran s' (Wrote (http_Error ''request timed out'' 504))
                        \<and> \<not> registered s' qid))
          \<and> status (http_Error ''request timed out'' 504) = 504"
    if ok: "pending_ok t"
      and send: "handleHTTPRequest_send t q m v = (t', Waiting qid qch, acts)"
      and pre: "\<forall>e \<in> set pre. \<not> may_remove qid e"
  proof -
    from send have t': "t' = fst (handleHTTPRequest_send t q m v)"
      by simp
    have cfg: "config (run t' pre) = config t"
      by (simp add: config_run t' config_send)
    from send_waiting [OF send]
    have reg: "map_of (pendingRequests t') qid = Some qch" and empty: "chans t' qch = []"
      by blast+
    have oks: "pending_ok t'"
      unfolding t' using ok by (rule pending_ok_send)
    have still_empty: "chans (run t' pre) qch = []"
      using oks reg empty pre by (rule run_keeps_empty)
    have gone: "\<not> registered ((run t' pre)\<lparr>pendingRequests :=
                    AList.delete qid (pendingRequests (run t' pre))\<rparr>) qid"
      by (simp add: registered_def delete_conv')
    show ?thesis
      using gone by (simp add: select_empty [OF still_empty] cfg http_Error_def)
  qed
  have d: "0 \<le> RequestTimeout (config t) \<and> RequestTimeout (config t) * 1000000 < 2 ^ 63
      \<longrightarrow> request_timer (config t) = RequestTimeout (config t) * 1000000"
    using request_timer_exact [of "config t"] by blast
  show ?thesis
    apply (intro conjI)
    apply (rule a)
    using b apply blast
    using c apply blast
    apply (rule d)
    done
qed

theorem forward_error_statuses_witness:
  "replied_status (fst (snd (handleHTTPRequest_send (NewTunnelServer DefaultConfig) ex_request 7 WriteOk)))
     = Some 503
   \<and> map_option snd
       (handleHTTPRequest_received (fst (handleHTTPResponse ex_pending ex_error_response)) ''req_7'' 0)
     = Some (Wrote (http_Error ''refused'' 502))
   \<and> status (http_Error ''refused'' 502) = 502
   \<and> (\<exists>s'. handleHTTPRequest_select (fst (handleHTTPResponse ex_pending ex_error_response))
              ''req_7'' 0 5 True
            = Ran s' (Wrote (http_Error ''refused'' 502)))
   \<and> handleHTTPRequest_select
        (run (fst (handleHTTPRequest_send ex_relay ex_request 7 WriteOk)) [EvTimeout ''req_8''])
        ''req_7'' 0 29999999999 False = Blocked
   \<and> (\<exists>s'. handleHTTPRequest_select
              (run (fst (handleHTTPRequest_send ex_relay ex_request 7 WriteOk)) [EvTimeout ''req_8''])
              ''req_7'' 0 30000000000 False
            = Ran s' (Wrote (http_Error ''request timed out'' 504)))
   \<and> status (http_Error ''request timed out'' 504) = 504
   \<and> request_timer (config ex_relay) = 30000000000"
proof -
  let ?sent = "fst (handleHTTPRequest_send ex_relay ex_request 7 WriteOk)"
  let ?acts = "snd (snd (handleHTTPRequest_send ex_relay ex_request 7 WriteOk))"
  have none: "clients (NewTunnelServer DefaultConfig) = []"
    by (simp add: NewTunnelServer_def)
  have reg: "map_of (pendingRequests ex_pending) ''req_7'' = Some 0"
    and empty: "chans ex_pending 0 = []"
    by (simp_all add: ex_pending_def ex_relay_def NewTunnelServer_def)
  have msg: "index ex_error_response ''id'' = JStr ''req_7''"
    "index ex_error_response ''data'' = JObj ex_error_data"
    by (simp_all add: ex_error_response_def index_def)
  have err: "index ex_error_data ''error'' = JStr ''refused''" "''refused'' \<noteq> []"
    by (simp_all add: ex_error_data_def index_def)
  have cfg: "RequestTimeout (config ex_relay) = 30000" "RequestTimeout (config ex_pending) = 30000"
    by (simp_all add: ex_pending_def ex_relay_def NewTunnelServer_def DefaultConfig_def)
  have ok: "pending_ok ex_relay"
    by (simp add: pending_ok_def ex_relay_def NewTunnelServer_def)
  have send: "handleHTTPRequest_send ex_relay ex_request 7 WriteOk = (?sent, Waiting ''req_7'' 0, ?acts)"
    by (simp add: handleHTTPRequest_send_def ex_relay_def ex_request_def NewTunnelServer_def
        Sprintf_d_7 Let_def)
  have pre: "\<forall>e \<in> set [EvTimeout ''req_8'']. \<not> may_remove ''req_7'' e"
    by simp
  note unreg = forward_error_statuses [where s = "NewTunnelServer DefaultConfig" and r = ex_request
      and n = 7 and w = WriteOk and rid = "''req_7''" and ch = 0 and msg = ex_error_response
      and data = ex_error_data and err = "''refused''" and elapsed = 5 and pick = True
      and t = ex_pending and q = ex_request and m = 7 and v = WriteOk and t' = ?sent
      and qid = "''req_7''" and qch = 0 and acts = ?acts and pre = "[EvTimeout ''req_8'']"]
  note resp = forward_error_statuses [where s = ex_pending and r = ex_request
      and n = 7 and w = WriteOk and rid = "''req_7''" and ch = 0 and msg = ex_error_response
      and data = ex_error_data and err = "''refused''" and elapsed = 5 and pick = True
      and t = ex_pending and q = ex_request and m = 7 and v = WriteOk and t' = ?sent
      and qid = "''req_7''" and qch = 0 and acts = ?acts and pre = "[EvTimeout ''req_8'']"]
  note early = forward_error_statuses [where s = ex_pending and r = ex_request
      and n = 7 and w = WriteOk and rid = "''req_7''" and ch = 0 and msg = ex_error_response
      and data = ex_error_data and err = "''refused''" and elapsed = 29999999999 and pick = False
      and t = ex_relay and q = ex_request and m = 7 and v = WriteOk and t' = ?sent
      and qid = "''req_7''" and qch = 0 and acts = ?acts and pre = "[EvTimeout ''req_8'']"]
  note late = forward_error_statuses [where s = ex_pending and r = ex_request
      and n = 7 and w = WriteOk and rid = "''req_7''" and ch = 0 and msg = ex_error_response
      and data = ex_error_data and err = "''refused''" and elapsed = 30000000000 and pick = False
      and t = ex_relay and q = ex_request and m = 7 and v = WriteOk and t' = ?sent
      and qid = "''req_7''" and qch = 0 and acts = ?acts and pre = "[EvTimeout ''req_8'']"]
  have timer: "request_timer (config ex_relay) = 30000000000"
    using late cfg by simp
  have timer': "request_timer (config ex_pending) = 30000000000"
    using resp cfg by simp
  have w1: "replied_status (fst (snd (handleHTTPRequest_send (NewTunnelServer DefaultConfig)
               ex_request 7 WriteOk))) = Some 503"
    using unreg none by blast
  have w2: "map_option snd
       (handleHTTPRequest_received (fst (handleHTTPResponse ex_pending ex_error_response)) ''req_7'' 0)
     = Some (Wrote (http_Error ''refused'' 502))"
    and w3: "status (http_Error ''refused'' 502) = 502"
    using resp reg empty msg err by blast+
  have lt: "(5::int) < request_timer (config ex_pending)"
    by (simp add: timer')
  have w4: "\<exists>s'. handleHTTPRequest_select (fst (handleHTTPResponse ex_pending ex_error_response))
              ''req_7'' 0 5 True
            = Ran s' (Wrote (http_Error ''refused'' 502))"
    using resp reg empty msg err lt by blast
  have lt2: "(29999999999::int) < request_timer (config ex_relay)"
    by (simp add: timer)
  have w5: "handleHTTPRequest_select (run ?sent [EvTimeout ''req_8'']) ''req_7'' 0 29999999999 False
       = Blocked"
    using early ok send pre lt2 by blast
  have ge: "request_timer (config ex_relay) \<le> (30000000000::int)"
    by (simp add: timer)
  have w6: "\<exists>s'. handleHTTPRequest_select (run ?sent [EvTimeout ''req_8'']) ''req_7'' 0 30000000000 False
            = Ran s' (Wrote (http_Error ''request timed out'' 504))"
    and w7: "status (http_Error ''request timed out'' 504) = 504"
    using late ok send pre ge by blast+
  from w1 w2 w3 w4 w5 w6 w7 timer show ?thesis
    by (intro conjI)
qed
subsection \<open>The agent's dispatcher\<close>



subsection \<open>Reconnecting\<close>

lemma wrap64_id: "- (2 ^ 63) \<le> x \<Longrightarrow> x < 2 ^ 63 \<Longrightarrow> wrap64 x = x"
  by (simp add: wrap64_def)

text \<open>Without overflow the delay is the product, in nanoseconds.\<close>

lemma reconnect_delay_exact:
  assumes "0 \<le> ReconnectDelay cfg" and "0 \<le> count"
    and "ReconnectDelay cfg * count * 1000000 < 2 ^ 63"
  shows "reconnect_delay cfg count = ReconnectDelay cfg * count * 1000000"
proof -
  have nonneg: "0 \<le> ReconnectDelay cfg * count"
    using assms by simp
  then have "ReconnectDelay cfg * count \<le> ReconnectDelay cfg * count * 1000000"
    by linarith
  with assms have small: "ReconnectDelay cfg * count < 2 ^ 63"
    by linarith
  have neg: "- (2 ^ 63) \<le> (0::int)"
    by simp
  have low1: "- (2 ^ 63) \<le> ReconnectDelay cfg * count"
    using neg nonneg by (rule order_trans)
  have "0 \<le> ReconnectDelay cfg * count * 1000000"
    using nonneg by linarith
  with neg have low2: "- (2 ^ 63) \<le> ReconnectDelay cfg * count * 1000000"
    by (rule order_trans)
  have "wrap64 (ReconnectDelay cfg * count) = ReconnectDelay cfg * count"
    using low1 small by (rule wrap64_id)
  moreover have "wrap64 (ReconnectDelay cfg * count * 1000000) = ReconnectDelay cfg * count * 1000000"
    using low2 assms(3) by (rule wrap64_id)
  ultimately show ?thesis
    by (simp add: reconnect_delay_def)
qed

text \<open>One call of \<open>reconnect\<close>, by the counter and by the outcome of the dial.\<close>

lemma reconnect_give_up:
  assumes "ReconnectAttempts (cconfig c) \<le> reconnectCount c" and "reconnectCount c < 2 ^ 63 - 1"
    and "- (2 ^ 63) \<le> ReconnectAttempts (cconfig c)"
  shows "reconnect c ds = (c\<lparr>reconnectCount := reconnectCount c + 1\<rparr>, [LogGiveUp])"
proof -
  have "wrap64 (reconnectCount c + 1) = reconnectCount c + 1"
    using assms by (intro wrap64_id) simp_all
  then show ?thesis
    using assms by (subst reconnect.simps) (simp add: Let_def)
qed

lemma reconnect_fail_step:
  assumes "0 \<le> reconnectCount c" and "reconnectCount c < ReconnectAttempts (cconfig c)"
    and "ReconnectAttempts (cconfig c) < 2 ^ 63"
  shows "reconnect c (None # ds) =
     (fst (reconnect (c\<lparr>reconnectCount := reconnectCount c + 1\<rparr>) ds),
      Sleep (reconnect_delay (cconfig c) (reconnectCount c + 1)) # Dial (connect_headers (cconfig c))
        # snd (reconnect (c\<lparr>reconnectCount := reconnectCount c + 1\<rparr>) ds))"
proof -
  have w: "wrap64 (reconnectCount c + 1) = reconnectCount c + 1"
    using assms by (intro wrap64_id) simp_all
  show ?thesis
    using assms
    by (subst reconnect.simps) (simp add: Let_def w connect_def split: prod.splits)
qed

lemma reconnect_ok_step:
  assumes "0 \<le> reconnectCount c" and "reconnectCount c < ReconnectAttempts (cconfig c)"
    and "ReconnectAttempts (cconfig c) < 2 ^ 63"
  shows "reconnect c (Some cn # ds) =
     (c\<lparr>reconnectCount := 0, conn := Some cn, connected := True\<rparr>,
      [Sleep (reconnect_delay (cconfig c) (reconnectCount c + 1)), Dial (connect_headers (cconfig c)),
       Go GoHandleMessages])"
proof -
  have w: "wrap64 (reconnectCount c + 1) = reconnectCount c + 1"
    using assms by (intro wrap64_id) simp_all
  show ?thesis
    using assms
    by (subst reconnect.simps) (simp add: Let_def w connect_def split: prod.splits)
qed

lemma reconnect_empty_step:
  assumes "0 \<le> reconnectCount c" and "reconnectCount c < ReconnectAttempts (cconfig c)"
    and "ReconnectAttempts (cconfig c) < 2 ^ 63"
  shows "reconnect c [] =
     (c\<lparr>reconnectCount := reconnectCount c + 1\<rparr>,
      [Sleep (reconnect_delay (cconfig c) (reconnectCount c + 1))])"
proof -
  have w: "wrap64 (reconnectCount c + 1) = reconnectCount c + 1"
    using assms by (intro wrap64_id) simp_all
  show ?thesis
    using assms
    by (subst reconnect.simps) (simp add: Let_def w)
qed

text \<open>\<open>K\<close> failed dials in a row, within the budget: the sleeps, the dials and the
  counter.\<close>

lemma reconnect_failures:
  assumes "0 \<le> reconnectCount c" and "reconnectCount c + int K < ReconnectAttempts (cconfig c)"
    and "ReconnectAttempts (cconfig c) < 2 ^ 63"
  shows "sleeps (snd (reconnect c (replicate K None))) =
           map (\<lambda>i. reconnect_delay (cconfig c) (reconnectCount c + 1 + int i)) [0..<Suc K]
       \<and> dial_count (snd (reconnect c (replicate K None))) = K
       \<and> reconnectCount (fst (reconnect c (replicate K None))) = reconnectCount c + int K + 1
       \<and> cconfig (fst (reconnect c (replicate K None))) = cconfig c"
  using assms
proof (induction K arbitrary: c)
  case 0
  then show ?case by (simp add: reconnect_empty_step)
next
  case (Suc K)
  let ?c1 = "c\<lparr>reconnectCount := reconnectCount c + 1\<rparr>"
  have step: "reconnect c (None # replicate K None) =
     (fst (reconnect ?c1 (replicate K None)),
      Sleep (reconnect_delay (cconfig c) (reconnectCount c + 1)) # Dial (connect_headers (cconfig c))
        # snd (reconnect ?c1 (replicate K None)))"
    using Suc.prems by (intro reconnect_fail_step) simp_all
  have ih: "sleeps (snd (reconnect ?c1 (replicate K None))) =
           map (\<lambda>i. reconnect_delay (cconfig ?c1) (reconnectCount ?c1 + 1 + int i)) [0..<Suc K]
       \<and> dial_count (snd (reconnect ?c1 (replicate K None))) = K
       \<and> reconnectCount (fst (reconnect ?c1 (replicate K None))) = reconnectCount ?c1 + int K + 1
       \<and> cconfig (fst (reconnect ?c1 (replicate K None))) = cconfig ?c1"
    using Suc.prems by (intro Suc.IH) simp_all
  have shift: "map (\<lambda>i. reconnect_delay (cconfig c) (reconnectCount c + 1 + int i)) [0..<Suc (Suc K)] =
     reconnect_delay (cconfig c) (reconnectCount c + 1)
       # map (\<lambda>i. reconnect_delay (cconfig c) (reconnectCount c + 1 + 1 + int i)) [0..<Suc K]"
    by (simp add: map_upt_Suc algebra_simps del: upt_Suc)
  show ?case
    using ih by (simp only: replicate_Suc step shift) simp
qed

text \<open>\<open>K\<close> failed dials and then a successful one: the agent is connected and the
  counter is zero.\<close>

lemma reconnect_then_connected:
  assumes "0 \<le> reconnectCount c" and "reconnectCount c + int K < ReconnectAttempts (cconfig c)"
    and "ReconnectAttempts (cconfig c) < 2 ^ 63"
  shows "fst (reconnect c (replicate K None @ Some cn # rest)) =
           c\<lparr>reconnectCount := 0, conn := Some cn, connected := True\<rparr>"
  using assms
proof (induction K arbitrary: c)
  case 0
  then show ?case by (simp add: reconnect_ok_step)
next
  case (Suc K)
  let ?c1 = "c\<lparr>reconnectCount := reconnectCount c + 1\<rparr>"
  have "fst (reconnect ?c1 (replicate K None @ Some cn # rest)) =
          ?c1\<lparr>reconnectCount := 0, conn := Some cn, connected := True\<rparr>"
    using Suc.prems by (intro Suc.IH) simp_all
  moreover have "reconnect c (None # replicate K None @ Some cn # rest) =
     (fst (reconnect ?c1 (replicate K None @ Some cn # rest)),
      Sleep (reconnect_delay (cconfig c) (reconnectCount c + 1)) # Dial (connect_headers (cconfig c))
        # snd (reconnect ?c1 (replicate K None @ Some cn # rest)))"
    using Suc.prems by (intro reconnect_fail_step) simp_all
  ultimately show ?case by simp
qed

text \<open>Whatever the dials to come do, \<open>reconnect\<close> dials at most as often as the
  budget has attempts left.\<close>

lemma reconnect_budget:
  assumes "0 \<le> reconnectCount c" and "reconnectCount c < 2 ^ 63 - 1"
    and "ReconnectAttempts (cconfig c) < 2 ^ 63 - 1"
    and "- (2 ^ 63) \<le> ReconnectAttempts (cconfig c)"
  shows "int (dial_count (snd (reconnect c ds))) \<le> max 0 (ReconnectAttempts (cconfig c) - reconnectCount c)"
  using assms
proof (induction ds arbitrary: c)
  case Nil
  show ?case
  proof (cases "reconnectCount c < ReconnectAttempts (cconfig c)")
    case True
    with Nil show ?thesis by (simp add: reconnect_empty_step)
  next
    case False
    with Nil show ?thesis by (simp add: reconnect_give_up)
  qed
next
  case (Cons d ds)
  show ?case
  proof (cases "reconnectCount c < ReconnectAttempts (cconfig c)")
    case False
    with Cons.prems show ?thesis by (simp add: reconnect_give_up)
  next
    case True
    show ?thesis
    proof (cases d)
      case (Some cn)
      with True Cons.prems show ?thesis by (simp add: reconnect_ok_step)
    next
      case None
      let ?c1 = "c\<lparr>reconnectCount := reconnectCount c + 1\<rparr>"
      have "int (dial_count (snd (reconnect ?c1 ds)))
              \<le> max 0 (ReconnectAttempts (cconfig ?c1) - reconnectCount ?c1)"
        using Cons.prems True by (intro Cons.IH) simp_all
      with True None Cons.prems show ?thesis
        by (simp add: reconnect_fail_step)
    qed
  qed
qed

text \<open>
  C5. Let the agent start reconnecting with its counter at zero, as it is after any
  connection (\<open>connect\<close> sets it to zero on success), and let the next \<open>K\<close> dials
  fail, \<open>K\<close> below the configured \<open>ReconnectAttempts\<close>. The configuration is in
  range: the delay is not negative and the largest product does not overflow 64 bits.
  Then
  \<^item> the agent sleeps \<open>K + 1\<close> times and the sleep before attempt \<open>i + 1\<close> lasts
    \<open>ReconnectDelay * (i + 1)\<close> milliseconds (given in nanoseconds), so the delay
    after \<open>K\<close> failures in a row is \<open>ReconnectDelay * (K + 1)\<close> milliseconds;
    it has dialled \<open>K\<close> times;
  \<^item> a successful \<open>connect\<close> sets the counter to zero and \<open>connected\<close>, from any
    state; so does the dial that succeeds after the \<open>K\<close> failures;
  \<^item> whatever the outcomes \<open>ds\<close> of the dials to come, the agent dials at most
    \<open>ReconnectAttempts\<close> times, and a call of \<open>reconnect\<close> with the counter at
    \<open>ReconnectAttempts\<close> raises it beyond the maximum and does nothing else: no
    sleep, no dial, no further call.
\<close>

theorem reconnect_backoff:
  assumes zero: "reconnectCount c = 0"
    and K: "int K < ReconnectAttempts (cconfig c)"
    and maxA: "ReconnectAttempts (cconfig c) < 2 ^ 63 - 1"
    and d0: "0 \<le> ReconnectDelay (cconfig c)"
    and dK: "ReconnectDelay (cconfig c) * (int K + 1) * 1000000 < 2 ^ 63"
  shows "sleeps (snd (reconnect c (replicate K None)))
           = map (\<lambda>i. ReconnectDelay (cconfig c) * (int i + 1) * 1000000) [0..<Suc K]
       \<and> dial_count (snd (reconnect c (replicate K None))) = K
       \<and> reconnectCount (fst (connect c' (Some cn))) = 0
       \<and> connected (fst (connect c' (Some cn)))
       \<and> fst (reconnect c (replicate K None @ [Some cn]))
           = c\<lparr>reconnectCount := 0, conn := Some cn, connected := True\<rparr>
       \<and> int (dial_count (snd (reconnect c ds))) \<le> ReconnectAttempts (cconfig c)
       \<and> reconnect (c\<lparr>reconnectCount := ReconnectAttempts (cconfig c)\<rparr>) ds
           = (c\<lparr>reconnectCount := ReconnectAttempts (cconfig c) + 1\<rparr>, [LogGiveUp])"
proof -
  have c0: "0 \<le> reconnectCount c" and cK: "reconnectCount c + int K < ReconnectAttempts (cconfig c)"
    and m63: "ReconnectAttempts (cconfig c) < 2 ^ 63"
    using zero K maxA by simp_all
  have exact: "reconnect_delay (cconfig c) (reconnectCount c + 1 + int i)
                 = ReconnectDelay (cconfig c) * (int i + 1) * 1000000"
    if "i \<in> set [0..<Suc K]" for i
  proof -
    from that have "i \<le> K" by auto
    then have "int i + 1 \<le> int K + 1" by simp
    then have "ReconnectDelay (cconfig c) * (int i + 1) \<le> ReconnectDelay (cconfig c) * (int K + 1)"
      using d0 by (rule mult_left_mono)
    then have "ReconnectDelay (cconfig c) * (int i + 1) * 1000000
                 \<le> ReconnectDelay (cconfig c) * (int K + 1) * 1000000"
      by simp
    with dK have lt: "ReconnectDelay (cconfig c) * (int i + 1) * 1000000 < 2 ^ 63"
      by linarith
    have pos: "0 \<le> int i + 1" by simp
    have eq: "reconnectCount c + 1 + int i = int i + 1"
      using zero by simp
    from reconnect_delay_exact [OF d0 pos lt] show ?thesis
      by (simp only: eq)
  qed
  have "map (\<lambda>i. reconnect_delay (cconfig c) (reconnectCount c + 1 + int i)) [0..<Suc K]
          = map (\<lambda>i. ReconnectDelay (cconfig c) * (int i + 1) * 1000000) [0..<Suc K]"
    by (rule map_cong [OF refl]) (rule exact)
  moreover have "sleeps (snd (reconnect c (replicate K None)))
          = map (\<lambda>i. reconnect_delay (cconfig c) (reconnectCount c + 1 + int i)) [0..<Suc K]"
    using reconnect_failures [OF c0 cK m63] by (rule conjunct1)
  ultimately have a: "sleeps (snd (reconnect c (replicate K None)))
           = map (\<lambda>i. ReconnectDelay (cconfig c) * (int i + 1) * 1000000) [0..<Suc K]"
    by (rule trans [rotated])
  have b: "dial_count (snd (reconnect c (replicate K None))) = K"
    using reconnect_failures [OF c0 cK m63] by blast
  have r: "reconnectCount (fst (connect c' (Some cn))) = 0" "connected (fst (connect c' (Some cn)))"
    by (simp_all add: connect_def)
  have d: "fst (reconnect c (replicate K None @ [Some cn]))
           = c\<lparr>reconnectCount := 0, conn := Some cn, connected := True\<rparr>"
    using reconnect_then_connected [OF c0 cK m63] .
  have low: "- (2 ^ 63) \<le> ReconnectAttempts (cconfig c)"
  proof -
    have "- (2 ^ 63) \<le> (0::int)" by simp
    also have "0 \<le> int K" by simp
    also have "int K \<le> ReconnectAttempts (cconfig c)" using K by simp
    finally show ?thesis .
  qed
  have c1: "reconnectCount c < 2 ^ 63 - 1"
    using zero by simp
  have "int (dial_count (snd (reconnect c ds)))
          \<le> max 0 (ReconnectAttempts (cconfig c) - reconnectCount c)"
    using c0 c1 maxA low by (rule reconnect_budget)
  then have e: "int (dial_count (snd (reconnect c ds))) \<le> ReconnectAttempts (cconfig c)"
    using zero K by simp
  let ?cm = "c\<lparr>reconnectCount := ReconnectAttempts (cconfig c)\<rparr>"
  have g1: "ReconnectAttempts (cconfig ?cm) \<le> reconnectCount ?cm" by simp
  have g2: "reconnectCount ?cm < 2 ^ 63 - 1" using maxA by simp
  have g3: "- (2 ^ 63) \<le> ReconnectAttempts (cconfig ?cm)" using low by simp
  have f: "reconnect ?cm ds = (c\<lparr>reconnectCount := ReconnectAttempts (cconfig c) + 1\<rparr>, [LogGiveUp])"
    using reconnect_give_up [OF g1 g2 g3, of ds] by simp
  show ?thesis
    using a b r d e f by (intro conjI) assumption+
qed

theorem reconnect_backoff_witness:
  "sleeps (snd (reconnect (NewTunnelClient DefaultClientConfig) (replicate 2 None)))
     = [5000000000, 10000000000, 15000000000]
   \<and> dial_count (snd (reconnect (NewTunnelClient DefaultClientConfig) (replicate 2 None))) = 2
   \<and> reconnectCount (fst (reconnect (NewTunnelClient DefaultClientConfig) (replicate 2 None @ [Some 3]))) = 0
   \<and> int (dial_count (snd (reconnect (NewTunnelClient DefaultClientConfig) (replicate 12 None)))) \<le> 10"
proof -
  let ?c = "NewTunnelClient DefaultClientConfig"
  have zero: "reconnectCount ?c = 0"
    by (simp add: NewTunnelClient_def)
  have cfg: "ReconnectAttempts (cconfig ?c) = 10" "ReconnectDelay (cconfig ?c) = 5000"
    by (simp_all add: NewTunnelClient_def DefaultClientConfig_def)
  have K: "int 2 < ReconnectAttempts (cconfig ?c)"
    and maxA: "ReconnectAttempts (cconfig ?c) < 2 ^ 63 - 1"
    and d0: "0 \<le> ReconnectDelay (cconfig ?c)"
    and dK: "ReconnectDelay (cconfig ?c) * (int 2 + 1) * 1000000 < 2 ^ 63"
    by (simp_all only: cfg) simp_all
  have list: "map (\<lambda>i. ReconnectDelay (cconfig ?c) * (int i + 1) * 1000000) [0..<Suc 2]
      = [5000000000, 10000000000, 15000000000]"
    by (simp only: cfg) (simp add: numeral_2_eq_2)
  note th = reconnect_backoff [OF zero K maxA d0 dK, of ?c 3 "replicate 12 None"]
  have a: "sleeps (snd (reconnect ?c (replicate 2 None))) = [5000000000, 10000000000, 15000000000]"
    using th list by (simp only:)
  have b: "dial_count (snd (reconnect ?c (replicate 2 None))) = 2"
    using th by blast
  have "fst (reconnect ?c (replicate 2 None @ [Some 3])) = ?c\<lparr>reconnectCount := 0, conn := Some 3, connected := True\<rparr>"
    using th by blast
  then have c: "reconnectCount (fst (reconnect ?c (replicate 2 None @ [Some 3]))) = 0"
    by (simp only:) simp
  have "int (dial_count (snd (reconnect ?c (replicate 12 None)))) \<le> ReconnectAttempts (cconfig ?c)"
    using th by blast
  then have d: "int (dial_count (snd (reconnect ?c (replicate 12 None)))) \<le> 10"
    by (simp only: cfg)
  show ?thesis
    using a b c d by (intro conjI) assumption+
qed


subsection \<open>Heartbeat and shutdown\<close>

lemma heartbeat_tick_state: "fst (heartbeat_tick c now writeOk) = c"
  by (simp add: heartbeat_tick_def split: option.splits)

lemma heartbeat_tick_actions:
  "snd (heartbeat_tick c now writeOk) =
     (if connected c then (case conn c of None \<Rightarrow> [] | Some cn \<Rightarrow> [Write cn (heartbeatMsg now)])
      else [])"
  by (simp add: heartbeat_tick_def split: option.splits)

lemma heartbeat_Tick:
  "heartbeat c (Tick now writeOk # evs) =
     (fst (heartbeat c evs), snd (heartbeat_tick c now writeOk) @ snd (heartbeat c evs))"
  by (simp add: heartbeat_tick_def split_beta split: option.splits)

lemma heartbeat_state: "fst (heartbeat c evs) = c"
proof (induction evs)
  case Nil
  show ?case by simp
next
  case (Cons e evs)
  then show ?case
    by (cases e) (simp_all add: heartbeat_Tick del: heartbeat.simps(3))
qed

lemma heartbeat_tick_no_reconnect: "Go GoReconnect \<notin> set (snd (heartbeat_tick c now writeOk))"
  unfolding heartbeat_tick_def by (cases "conn c") simp_all

lemma heartbeat_no_reconnect: "Go GoReconnect \<notin> set (snd (heartbeat c evs))"
proof (induction evs)
  case Nil
  show ?case by simp
next
  case (Cons e evs)
  then show ?case
    by (cases e)
      (simp_all add: heartbeat_Tick heartbeat_tick_no_reconnect del: heartbeat.simps(3))
qed

lemma heartbeat_writes:
  "connected c \<Longrightarrow> conn c = Some cn \<Longrightarrow>
     snd (heartbeat c evs) = map (\<lambda>t. Write cn (heartbeatMsg t)) (tick_times evs)"
proof (induction evs)
  case Nil
  show ?case by simp
next
  case (Cons e evs)
  then show ?case
    by (cases e) (simp_all add: heartbeat_Tick heartbeat_tick_actions del: heartbeat.simps(3))
qed

text \<open>
  C6, as the claim states it, fails. The agent \<open>ex_client\<close> is connected; a tick
  arrives and the write of the heartbeat fails (\<open>False\<close>). The tick leaves the state
  as it was, still connected, and starts no reconnection: the only action is the
  write itself.
\<close>

theorem heartbeat_write_failure_counterexample:
  "connected ex_client
   \<and> heartbeat_tick ex_client 1700000000 False = (ex_client, [Write 1 (heartbeatMsg 1700000000)])
   \<and> connected (fst (heartbeat_tick ex_client 1700000000 False))
   \<and> Go GoReconnect \<notin> set (snd (heartbeat_tick ex_client 1700000000 False))"
  by (simp add: heartbeat_tick_def ex_client_def)

text \<open>
  C6, amended. While the agent is connected and holds a connection, its heartbeat
  loop writes one heartbeat message to that connection at every tick of its ticker,
  until \<open>stopChan\<close> closes. The result of the write is dropped: a tick gives the same
  result whether the write fails or not, the loop never changes the agent's state and
  never starts a reconnection. The agent leaves the connected state for a
  reconnection when its read loop ends, which a failed read brings about: the loop
  breaks, and its deferred function clears \<open>connected\<close> and starts \<open>reconnect\<close>.
\<close>

theorem heartbeat_ignores_write_result:
  "(connected c \<and> conn c = Some cn
      \<longrightarrow> snd (heartbeat c evs) = map (\<lambda>t. Write cn (heartbeatMsg t)) (tick_times evs))
   \<and> heartbeat_tick c now False = heartbeat_tick c now True
   \<and> fst (heartbeat c evs) = c
   \<and> Go GoReconnect \<notin> set (snd (heartbeat c evs))
   \<and> handleMessages_iter c ReadErr lr = Break
   \<and> \<not> connected (fst (handleMessages_exit c))
   \<and> Go GoReconnect \<in> set (snd (handleMessages_exit c))"
proof -
  have a: "connected c \<and> conn c = Some cn
      \<longrightarrow> snd (heartbeat c evs) = map (\<lambda>t. Write cn (heartbeatMsg t)) (tick_times evs)"
    using heartbeat_writes by blast
  have b: "heartbeat_tick c now False = heartbeat_tick c now True"
    by (simp add: heartbeat_tick_def)
  have d: "handleMessages_iter c ReadErr lr = Break"
    by (simp add: handleMessages_iter_def split: option.splits)
  have e: "\<not> connected (fst (handleMessages_exit c))"
    "Go GoReconnect \<in> set (snd (handleMessages_exit c))"
    by (simp_all add: handleMessages_exit_def)
  from a b d e heartbeat_state [of c evs] heartbeat_no_reconnect [of c evs]
  show ?thesis by blast
qed

theorem heartbeat_ignores_write_result_witness:
  "snd (heartbeat ex_client [Tick 100 True, Tick 130 False, StopClosed, Tick 160 True])
     = [Write 1 (heartbeatMsg 100), Write 1 (heartbeatMsg 130)]
   \<and> fst (heartbeat ex_client [Tick 100 True, Tick 130 False, StopClosed, Tick 160 True]) = ex_client"
proof -
  have c: "connected ex_client \<and> conn ex_client = Some 1"
    by (simp add: ex_client_def)
  have t: "tick_times [Tick 100 True, Tick 130 False, StopClosed, Tick 160 True] = [100, 130]"
    by simp
  from heartbeat_ignores_write_result
         [of ex_client 1 "[Tick 100 True, Tick 130 False, StopClosed, Tick 160 True]"] c t
  show ?thesis by simp
qed

text \<open>
  C7 fails on the code. The agent \<open>ex_client0\<close> is connected, with a reconnect delay
  of zero. \<open>Stop\<close> closes \<open>stopChan\<close> and the connection and clears \<open>connected\<close>
  (\<open>ex_stopped\<close>). The read on the closed connection fails, so the read loop breaks,
  and its deferred function starts \<open>reconnect\<close> (\<open>ex_closed\<close>); nothing on that
  path looks at \<open>stopChan\<close>. \<open>reconnect\<close> sleeps for the zero delay and dials;
  when the dial succeeds the agent is connected again, with \<open>stopChan\<close> closed. The
  heartbeat loop, for its part, returns when \<open>stopChan\<close> closes.
\<close>

theorem stop_then_reconnects:
  "Stop ex_client0 = Some (ex_stopped, [CloseStopChan, Close 1])
   \<and> handleMessages_iter ex_stopped ReadErr (DoErr []) = Break
   \<and> handleMessages_exit ex_stopped = (ex_closed, [Close 1, Go GoReconnect])
   \<and> snd (reconnect ex_closed [Some 2])
       = [Sleep 0, Dial (connect_headers (cconfig ex_client0)), Go GoHandleMessages]
   \<and> dial_count (snd (reconnect ex_closed [Some 2])) = 1
   \<and> connected (fst (reconnect ex_closed [Some 2]))
   \<and> stopChan_closed (fst (reconnect ex_closed [Some 2]))
   \<and> snd (heartbeat ex_stopped [StopClosed, Tick 1700000000 True]) = []"
proof -
  have a: "Stop ex_client0 = Some (ex_stopped, [CloseStopChan, Close 1])"
    by (simp add: Stop_def ex_stopped_def ex_client0_def ex_client_def NewTunnelClient_def)
  have b: "handleMessages_iter ex_stopped ReadErr (DoErr []) = Break"
    by (simp add: handleMessages_iter_def split: option.splits)
  have c: "handleMessages_exit ex_stopped = (ex_closed, [Close 1, Go GoReconnect])"
    by (simp add: handleMessages_exit_def ex_closed_def ex_stopped_def ex_client0_def
        ex_client_def NewTunnelClient_def)
  have count: "reconnectCount ex_closed = 0"
    and cfg: "cconfig ex_closed = cconfig ex_client0"
      "ReconnectAttempts (cconfig ex_client0) = 10" "ReconnectDelay (cconfig ex_client0) = 0"
    by (simp_all add: ex_closed_def ex_stopped_def ex_client0_def ex_client_def
        NewTunnelClient_def DefaultClientConfig_def)
  have p1: "0 \<le> reconnectCount ex_closed"
    and p2: "reconnectCount ex_closed < ReconnectAttempts (cconfig ex_closed)"
    and p3: "ReconnectAttempts (cconfig ex_closed) < 2 ^ 63"
    by (simp_all only: count cfg) simp_all
  have delay: "reconnect_delay (cconfig ex_client0) 1 = 0"
    by (simp add: reconnect_delay_def cfg wrap64_def)
  have d: "reconnect ex_closed [Some 2] =
      (ex_closed\<lparr>reconnectCount := 0, conn := Some 2, connected := True\<rparr>,
       [Sleep 0, Dial (connect_headers (cconfig ex_client0)), Go GoHandleMessages])"
    using reconnect_ok_step [OF p1 p2 p3, of 2 "[]"] by (simp add: count cfg delay)
  have e: "stopChan_closed ex_closed"
    by (simp add: ex_closed_def ex_stopped_def)
  from a b c d e show ?thesis by simp
qed

end
